theory Spec2Isabelle
  imports Complex_Main
begin

section \<open>Data model\<close>

text \<open>
  The stroke library computes on JavaScript numbers. They are modelled as the
  reals: rounding, infinities and NaN are outside the model, and a division by
  zero has HOL's value 0. The loops that advance \<open>t\<close> by 0.1 run eleven times in
  both readings (ten double additions of 0.1 give 0.9999999999999999, which is
  still at most 1).
\<close>

type_synonym vec2 = "real \<times> real"

text \<open>
  An input point, \<open>[x, y, pressure]\<close> or \<open>{x, y, pressure}\<close>; the pressure is
  optional in both forms.
\<close>

record input_point =
  in_x :: real
  in_y :: real
  in_pressure :: "real option"

text \<open>
  A point of the working array \<open>pts\<close>: slots 0 to 5 hold x, y, pressure, angle,
  distance and running length, in the order in which \<open>getStrokeOutlinePoints\<close>
  destructures them.
\<close>

record stroke_point =
  pt_x :: real
  pt_y :: real
  pt_pressure :: real
  pt_angle :: real
  pt_distance :: real
  pt_clen :: real

definition pos :: "stroke_point \<Rightarrow> vec2" where
  "pos p = (pt_x p, pt_y p)"

text \<open>\<open>StrokeOptions\<close>; every key may be absent (\<open>undefined\<close>).\<close>

record StrokeOptions =
  opt_size :: "real option"
  opt_thinning :: "real option"
  opt_smoothing :: "real option"
  opt_streamline :: "real option"
  opt_simulatePressure :: "bool option"
  opt_easing :: "(real \<Rightarrow> real) option"

datatype error = TypeError

section \<open>The helpers of \<open>./utils\<close>\<close>

text \<open>
  \<open>index.ts\<close> imports eight helpers from \<open>./utils\<close>, a file that is not among
  the sources. Each is modelled from the words of the specification.
\<close>

text \<open>
  Modelled from the spec: \<open>toPointsArray\<close> of \<open>./utils\<close> is missing. The point
  normalizer "produces a uniform ordered sequence of samples with default
  pressure"; "pressure defaults to 0.5 when absent". Slots 3 to 5 are not yet
  written; \<open>getStrokePoints\<close> fills them before any read.
\<close>

definition toPointsArray :: "input_point list \<Rightarrow> stroke_point list" where
  "toPointsArray points =
     map (\<lambda>p. \<lparr>pt_x = in_x p, pt_y = in_y p,
               pt_pressure = (case in_pressure p of None \<Rightarrow> 0.5 | Some v \<Rightarrow> v),
               pt_angle = 0, pt_distance = 0, pt_clen = 0\<rparr>) points"

text \<open>
  Modelled from the spec: \<open>clamp\<close> of \<open>./utils\<close> is missing. "clamp
  easing(pressure) to [0,1]"; "defensively clamped": \<open>clamp n a b\<close> confines
  \<open>n\<close> to \<open>[a, b]\<close>.
\<close>

definition clamp :: "real \<Rightarrow> real \<Rightarrow> real \<Rightarrow> real" where
  "clamp n a b = max a (min b n)"

text \<open>
  Modelled from the spec: \<open>lerp\<close> of \<open>./utils\<close> is missing. "linear
  interpolation between the previous resampled position and its own raw
  position with factor (1 - streamline)"; "interpolate from size toward ... by
  the eased pressure".
\<close>

definition lerp :: "real \<Rightarrow> real \<Rightarrow> real \<Rightarrow> real" where
  "lerp y1 y2 mu = y1 * (1 - mu) + y2 * mu"

text \<open>
  Modelled from the spec: the direction that \<open>getAngle\<close> returns, "radians,
  signed", is the one of the vector \<open>(x, y)\<close>, in \<open>(-pi, pi]\<close>, and 0 for the
  zero vector.
\<close>

definition atan2 :: "real \<Rightarrow> real \<Rightarrow> real" where
  "atan2 y x =
     (if 0 < x then arctan (y / x)
      else if x < 0 then (if 0 \<le> y then arctan (y / x) + pi else arctan (y / x) - pi)
      else if 0 < y then pi / 2
      else if y < 0 then - (pi / 2)
      else 0)"

text \<open>
  Modelled from the spec: \<open>getAngle\<close> of \<open>./utils\<close> is missing. It is called
  as \<open>getAngle(curr, prev)\<close>, and "Angle is the direction from the previous
  (resampled) point to the current one".
\<close>

definition getAngle :: "vec2 \<Rightarrow> vec2 \<Rightarrow> real" where
  "getAngle p0 p1 = atan2 (snd p0 - snd p1) (fst p0 - fst p1)"

text \<open>
  Modelled from the spec: \<open>getDistance\<close> of \<open>./utils\<close> is missing. "distance is
  the Euclidean norm between them".
\<close>

definition getDistance :: "vec2 \<Rightarrow> vec2 \<Rightarrow> real" where
  "getDistance p0 p1 = sqrt ((fst p1 - fst p0)\<^sup>2 + (snd p1 - snd p0)\<^sup>2)"

text \<open>
  Modelled from the spec: \<open>getPointBetween\<close> of \<open>./utils\<close> is missing. "the
  midpoint between the test point and the candidate".
\<close>

definition getPointBetween :: "vec2 \<Rightarrow> vec2 \<Rightarrow> vec2" where
  "getPointBetween p0 p1 =
     (fst p0 + (fst p1 - fst p0) * 0.5, snd p0 + (snd p1 - snd p0) * 0.5)"

text \<open>
  Modelled from the spec: \<open>projectPoint\<close> of \<open>./utils\<close> is missing. "project
  the current point at angle +- pi/2 by the current radius"; a rib point is
  "perpendicular-offset from the stroke's centerline by the local radius":
  the point at the distance \<open>d\<close> from \<open>p0\<close> in the direction \<open>a\<close>.
\<close>

definition projectPoint :: "vec2 \<Rightarrow> real \<Rightarrow> real \<Rightarrow> vec2" where
  "projectPoint p0 a d = (cos a * d + fst p0, sin a * d + snd p0)"

text \<open>
  Modelled from the spec: \<open>getAngleDelta\<close> of \<open>./utils\<close> is missing. "the
  absolute angular delta between the current sample's angle and the next
  sample's angle", compared with a quarter turn: the signed difference of the
  two directions, reduced to \<open>[-pi, pi)\<close>.
\<close>

definition getAngleDelta :: "real \<Rightarrow> real \<Rightarrow> real" where
  "getAngleDelta a0 a1 =
     (let da = a1 - a0 in da - 2 * pi * of_int \<lfloor>(da + pi) / (2 * pi)\<rfloor>)"

section \<open>\<open>index.ts\<close>\<close>

definition TAU :: real where "TAU = pi / 2"
definition SHARP :: real where "SHARP = TAU"
definition DULL :: real where "DULL = SHARP / 2"

text \<open>
  \<open>getStrokeRadius(size, thinning, easing, pressure = 0.5)\<close>. The test
  \<open>thinning === undefined\<close> makes the thinning an optional value; the default
  of the last parameter applies when the caller passes \<open>undefined\<close>. The
  parameter \<open>size\<close> is written \<open>sz\<close>.
\<close>

definition getStrokeRadius ::
  "real \<Rightarrow> real option \<Rightarrow> (real \<Rightarrow> real) \<Rightarrow> real option \<Rightarrow> real" where
  "getStrokeRadius sz thinning easing pressure =
     (case thinning of
        None \<Rightarrow> sz / 2
      | Some th \<Rightarrow>
          (let p0 = (case pressure of None \<Rightarrow> 0.5 | Some v \<Rightarrow> v);
               p = clamp (easing p0) 0 1
           in (if th < 0
               then lerp sz (sz + sz * clamp th (-0.95) (-0.05)) p
               else lerp (sz - sz * clamp th 0.05 0.95) sz p) / 2))"

text \<open>
  The loop of \<open>getStrokePoints\<close>, from index 1: \<open>prev\<close> is the element before
  \<open>curr\<close> as the loop has already rewritten it, and \<open>curr\<close> (written \<open>cur\<close>)
  is rewritten in place, slots 0 and 1 first, so that the angle and the
  distance are taken from the new position.
\<close>

fun resample :: "real \<Rightarrow> stroke_point \<Rightarrow> stroke_point list \<Rightarrow> stroke_point list" where
  "resample streamline prev [] = []"
| "resample streamline prev (cur # rest) =
     (let c0 = lerp (pt_x prev) (pt_x cur) (1 - streamline);
          c1 = lerp (pt_y prev) (pt_y cur) (1 - streamline);
          c3 = getAngle (c0, c1) (pos prev);
          c4 = getDistance (c0, c1) (pos prev);
          c5 = pt_clen prev + c4;
          cur' = \<lparr>pt_x = c0, pt_y = c1, pt_pressure = pt_pressure cur,
                   pt_angle = c3, pt_distance = c4, pt_clen = c5\<rparr>
      in cur' # resample streamline cur' rest)"

text \<open>
  \<open>getStrokePoints(points, streamline = 0.5)\<close>. \<open>pts[0][2] || 0.5\<close> takes 0.5
  when the pressure is falsy; of the reals only 0 is.
\<close>

definition getStrokePoints :: "input_point list \<Rightarrow> real option \<Rightarrow> stroke_point list" where
  "getStrokePoints points streamline_arg =
     (let streamline = (case streamline_arg of None \<Rightarrow> 0.5 | Some s \<Rightarrow> s);
          pts = toPointsArray points
      in case pts of
           [] \<Rightarrow> []
         | p0 # rest \<Rightarrow>
             (let first = \<lparr>pt_x = pt_x p0, pt_y = pt_y p0,
                           pt_pressure = (if pt_pressure p0 \<noteq> 0 then pt_pressure p0 else 0.5),
                           pt_angle = 0, pt_distance = 0, pt_clen = 0\<rparr>
              in first # resample streamline first rest))"

section \<open>\<open>getStrokeOutlinePoints\<close>\<close>

text \<open>
  The mutable locals of \<open>getStrokeOutlinePoints\<close>. \<open>pl\<close>, \<open>pr\<close>, \<open>tl\<close> and \<open>tr\<close>
  start as \<open>points[0]\<close>, of which the helpers read the position only.
\<close>

record trace_state =
  st_pl :: vec2
  st_pr :: vec2
  st_tl :: vec2
  st_tr :: vec2
  st_pa :: real
  st_pp :: real
  st_r :: real
  st_short :: bool
  leftPts :: "vec2 list"
  rightPts :: "vec2 list"

text \<open>A read \<open>xs[i]\<close> of a JavaScript array: \<open>undefined\<close> outside the array.\<close>

definition js_index :: "'a list \<Rightarrow> int \<Rightarrow> 'a option" where
  "js_index xs i = (if 0 \<le> i \<and> i < int (length xs) then Some (xs ! nat i) else None)"

text \<open>\<open>for (let t = 0, step = 0.1; t <= 1; t += step) body\<close>, entered at \<open>t\<close>.\<close>

function for_tenth :: "(real \<Rightarrow> 's \<Rightarrow> 's) \<Rightarrow> real \<Rightarrow> 's \<Rightarrow> 's" where
  "for_tenth body t s = (if t \<le> 1 then for_tenth body (t + 0.1) (body t s) else s)"
  by pat_completeness auto
termination
proof (relation "measure (\<lambda>(body, t, s). nat \<lceil>(1 - t) * 10 + 1\<rceil>)")
  show "wf (measure (\<lambda>(body :: real \<Rightarrow> 's \<Rightarrow> 's, t :: real, s :: 's). nat \<lceil>(1 - t) * 10 + 1\<rceil>))"
    by simp
next
  fix body :: "real \<Rightarrow> 's \<Rightarrow> 's" and t :: real and s :: 's
  assume "t \<le> 1"
  then have "0 < \<lceil>(1 - t) * 10 + 1\<rceil>" by (simp add: ceiling_less_iff)
  moreover have "\<lceil>(1 - (t + 0.1)) * 10 + 1\<rceil> = \<lceil>(1 - t) * 10 + 1\<rceil> - 1"
    by (simp add: algebra_simps) linarith
  ultimately show "((body, t + 0.1, body t s), (body, t, s))
      \<in> measure (\<lambda>(body, t, s). nat \<lceil>(1 - t) * 10 + 1\<rceil>)"
    by simp
qed

text \<open>\<open>for (let t = 0, step = 0.25; t <= 1; t += step) body\<close>, entered at \<open>t\<close>.\<close>

function for_quarter :: "(real \<Rightarrow> 's \<Rightarrow> 's) \<Rightarrow> real \<Rightarrow> 's \<Rightarrow> 's" where
  "for_quarter body t s = (if t \<le> 1 then for_quarter body (t + 0.25) (body t s) else s)"
  by pat_completeness auto
termination
proof (relation "measure (\<lambda>(body, t, s). nat \<lceil>(1 - t) * 4 + 1\<rceil>)")
  show "wf (measure (\<lambda>(body :: real \<Rightarrow> 's \<Rightarrow> 's, t :: real, s :: 's). nat \<lceil>(1 - t) * 4 + 1\<rceil>))"
    by simp
next
  fix body :: "real \<Rightarrow> 's \<Rightarrow> 's" and t :: real and s :: 's
  assume "t \<le> 1"
  then have "0 < \<lceil>(1 - t) * 4 + 1\<rceil>" by (simp add: ceiling_less_iff)
  moreover have "\<lceil>(1 - (t + 0.25)) * 4 + 1\<rceil> = \<lceil>(1 - t) * 4 + 1\<rceil> - 1"
    by (simp add: algebra_simps) linarith
  ultimately show "((body, t + 0.25, body t s), (body, t, s))
      \<in> measure (\<lambda>(body, t, s). nat \<lceil>(1 - t) * 4 + 1\<rceil>)"
    by simp
qed

text \<open>
  Section 1 of the loop body: the pressure and the radius of the sample. It
  returns the pair \<open>(pressure, r)\<close>. \<open>if (thinning)\<close> holds for every number
  but 0.
\<close>

definition sample_radius ::
  "real \<Rightarrow> real \<Rightarrow> bool \<Rightarrow> (real \<Rightarrow> real) \<Rightarrow> stroke_point \<Rightarrow> trace_state \<Rightarrow> real \<times> real" where
  "sample_radius sz thinning simulatePressure easing p st =
     (if thinning \<noteq> 0 then
        (let pressure =
               (if simulatePressure then
                  (let rp = min (1 - pt_distance p / sz) 1;
                       sp = min (pt_distance p / sz) 1
                   in min 1 (st_pp st + (rp - st_pp st) * (sp / 2)))
                else pt_pressure p)
         in (pressure, getStrokeRadius sz (Some thinning) easing (Some pressure)))
      else (pt_pressure p, st_r st))"

text \<open>Section 2, once the minimum length is reached: the cap at the first point.\<close>

definition start_cap :: "stroke_point list \<Rightarrow> real \<Rightarrow> trace_state \<Rightarrow> trace_state" where
  "start_cap points angle st =
     (let st1 = for_tenth
            (\<lambda>t s. let tl = projectPoint (pos (points ! 0)) (angle + TAU - t * pi) (st_r s)
                    in s\<lparr>st_tl := tl, leftPts := leftPts s @ [tl]\<rparr>)
            0 (st\<lparr>st_short := False\<rparr>);
          tr = projectPoint (pos (points ! 0)) (angle + TAU) (st_r st1)
      in st1\<lparr>st_tr := tr, rightPts := rightPts st1 @ [tr]\<rparr>)"

text \<open>Section 3, a sharp corner: the cap on both sides, around the previous angle.\<close>

definition sharp_cap :: "vec2 \<Rightarrow> trace_state \<Rightarrow> trace_state" where
  "sharp_cap xy st =
     for_quarter
       (\<lambda>t s. let tl = projectPoint xy (st_pa s - TAU + t * - pi) (st_r s);
                   tr = projectPoint xy (st_pa s + TAU + t * pi) (st_r s)
               in s\<lparr>st_tl := tl, st_tr := tr,
                     leftPts := leftPts s @ [tl], rightPts := rightPts s @ [tr]\<rparr>)
       0 st"

text \<open>Section 4, a regular point, and the update of \<open>pp\<close> and \<open>pa\<close>.\<close>

definition regular_point ::
  "real \<Rightarrow> vec2 \<Rightarrow> real \<Rightarrow> real \<Rightarrow> real \<Rightarrow> trace_state \<Rightarrow> trace_state" where
  "regular_point minDist xy angle absDelta pressure st =
     (let pl = projectPoint xy (angle - TAU) (st_r st);
          pr = projectPoint xy (angle + TAU) (st_r st);
          st1 = st\<lparr>st_pl := pl, st_pr := pr\<rparr>;
          st2 = (if absDelta > DULL \<or> getDistance pl (st_tl st1) > minDist
                 then st1\<lparr>leftPts := leftPts st1 @ [getPointBetween (st_tl st1) pl],
                          st_tl := pl\<rparr>
                 else st1);
          st3 = (if absDelta > DULL \<or> getDistance pr (st_tr st2) > minDist
                 then st2\<lparr>rightPts := rightPts st2 @ [getPointBetween (st_tr st2) pr],
                          st_tr := pr\<rparr>
                 else st2)
      in st3\<lparr>st_pp := pressure, st_pa := angle\<rparr>)"

text \<open>
  Sections 2 to 4 for the sample \<open>points[i]\<close>, with the pressure and the radius
  of section 1 already in place. The two \<open>continue\<close> statements are the two
  branches that return early.
\<close>

definition emit_sample ::
  "real \<Rightarrow> real \<Rightarrow> stroke_point list \<Rightarrow> nat \<Rightarrow> real \<Rightarrow> trace_state \<Rightarrow> trace_state" where
  "emit_sample sz minDist points i pressure st =
     (let nxt = points ! (i + 1);
          p = points ! i;
          angle = pt_angle p
      in if st_short st \<and> pt_clen p < sz / 4 then st
         else
           (let st2 = (if st_short st then start_cap points angle st else st);
                absDelta = \<bar>getAngleDelta (pt_angle nxt) angle\<bar>
            in if absDelta > SHARP then sharp_cap (pt_x p, pt_y p) st2
               else regular_point minDist (pt_x p, pt_y p) angle absDelta pressure st2))"

text \<open>The body of \<open>for (let i = 1; i < len - 1; i++)\<close>.\<close>

definition outline_step ::
  "real \<Rightarrow> real \<Rightarrow> bool \<Rightarrow> (real \<Rightarrow> real) \<Rightarrow> real \<Rightarrow> stroke_point list \<Rightarrow> nat
     \<Rightarrow> trace_state \<Rightarrow> trace_state" where
  "outline_step sz thinning simulatePressure easing minDist points i st =
     (let (pressure, r) = sample_radius sz thinning simulatePressure easing (points ! i) st
      in emit_sample sz minDist points i pressure (st\<lparr>st_r := r\<rparr>))"

function outline_loop ::
  "real \<Rightarrow> real \<Rightarrow> bool \<Rightarrow> (real \<Rightarrow> real) \<Rightarrow> real \<Rightarrow> stroke_point list \<Rightarrow> nat
     \<Rightarrow> trace_state \<Rightarrow> trace_state" where
  "outline_loop sz thinning simulatePressure easing minDist points i st =
     (if i < length points - 1
      then outline_loop sz thinning simulatePressure easing minDist points (i + 1)
             (outline_step sz thinning simulatePressure easing minDist points i st)
      else st)"
  by pat_completeness auto
termination
  by (relation "measure (\<lambda>(sz, thinning, simulatePressure, easing, minDist, points, i, st).
        length points - 1 - i)") auto

text \<open>The branch for a single point or a stroke no longer than \<open>size / 4\<close>.\<close>

definition dot_outline :: "stroke_point list \<Rightarrow> real \<Rightarrow> trace_state \<Rightarrow> vec2 list" where
  "dot_outline points r st =
     (let first = points ! 0;
          lst = points ! (length points - 1);
          angle = getAngle (pos first) (pos lst);
          st1 = for_tenth
            (\<lambda>t s. let tl = projectPoint (pos first) (angle + pi + TAU - t * pi) r;
                        tr = projectPoint (pos lst) (angle + TAU - t * pi) r
                    in s\<lparr>st_tl := tl, st_tr := tr,
                          leftPts := leftPts s @ [tl], rightPts := rightPts s @ [tr]\<rparr>)
            0 st
      in leftPts st1 @ rightPts st1)"

text \<open>The end cap and the assembly of the outline.\<close>

definition end_cap :: "stroke_point list \<Rightarrow> trace_state \<Rightarrow> vec2 list" where
  "end_cap points st =
     (let lst = points ! (length points - 1);
          st1 = for_tenth
            (\<lambda>t s. s\<lparr>rightPts := rightPts s @
                        [projectPoint (pos lst) (pt_angle lst + TAU + t * pi) (st_r s)]\<rparr>)
            0 st
      in leftPts st1 @ rev (rightPts st1))"

text \<open>
  The state at the head of the function, once \<open>points[0]\<close> is known to exist.
\<close>

definition init_state :: "real \<Rightarrow> stroke_point \<Rightarrow> trace_state" where
  "init_state sz p0 =
     \<lparr>st_pl = pos p0, st_pr = pos p0, st_tl = pos p0, st_tr = pos p0,
      st_pa = pt_angle p0, st_pp = 0, st_r = sz / 2, st_short = True,
      leftPts = [], rightPts = []\<rparr>"

text \<open>
  The state in which the loop body finds the sample \<open>i\<close>: the one that the
  samples 1 to \<open>i - 1\<close> leave behind.
\<close>

definition loop_state_at ::
  "real \<Rightarrow> real \<Rightarrow> bool \<Rightarrow> (real \<Rightarrow> real) \<Rightarrow> real \<Rightarrow> stroke_point list \<Rightarrow> nat \<Rightarrow> trace_state" where
  "loop_state_at sz thinning simulatePressure easing minDist points i =
     fold (\<lambda>k. outline_step sz thinning simulatePressure easing minDist points k) [1..<i]
       (init_state sz (points ! 0))"

text \<open>
  \<open>getStrokeOutlinePoints(points, options)\<close>, statement by statement. The reads
  \<open>points[len - 1][5]\<close> and \<open>pr[3]\<close> come before the test \<open>len === 0\<close>; a read of
  a slot of \<open>undefined\<close> throws a TypeError.
\<close>

definition getStrokeOutlinePoints ::
  "stroke_point list \<Rightarrow> StrokeOptions \<Rightarrow> error + vec2 list" where
  "getStrokeOutlinePoints points options =
     (let sz = (case opt_size options of None \<Rightarrow> 8 | Some v \<Rightarrow> v);
          thinning = (case opt_thinning options of None \<Rightarrow> 0.5 | Some v \<Rightarrow> v);
          smoothing = (case opt_smoothing options of None \<Rightarrow> 0.5 | Some v \<Rightarrow> v);
          simulatePressure = (case opt_simulatePressure options of None \<Rightarrow> True | Some v \<Rightarrow> v);
          easing = (case opt_easing options of None \<Rightarrow> (\<lambda>t. t) | Some f \<Rightarrow> f);
          len = length points
      in case js_index points (int len - 1) of
           None \<Rightarrow> Inl TypeError
         | Some lastp \<Rightarrow>
             (let totalLength = pt_clen lastp;
                  minDist = sz * smoothing
              in case js_index points 0 of
                   None \<Rightarrow> Inl TypeError
                 | Some p0 \<Rightarrow>
                     (let st = init_state sz p0
                      in if len = 0 then Inr []
                         else if len = 1 \<or> totalLength \<le> sz / 4 then
                           (let r = (if thinning \<noteq> 0
                                     then getStrokeRadius sz (Some thinning) easing
                                            (Some (pt_pressure lastp))
                                     else st_r st)
                            in Inr (dot_outline points r st))
                         else
                           Inr (end_cap points
                                  (outline_loop sz thinning simulatePressure easing minDist
                                     points 1 st)))))"

text \<open>\<open>getStroke\<close>, the default export.\<close>

definition getStroke :: "input_point list \<Rightarrow> StrokeOptions \<Rightarrow> error + vec2 list" where
  "getStroke points options =
     getStrokeOutlinePoints (getStrokePoints points (opt_streamline options)) options"

section \<open>The tracer at a constant radius\<close>

text \<open>
  The reference for a stroke without pressure modulation, after the
  specification ("constant radius = size/2", "empty input, empty outline"):
  the tracer with the radius set to \<open>size / 2\<close> at every sample and at the caps,
  and with no use of the pressure.
\<close>

definition constantRadiusStep ::
  "real \<Rightarrow> real \<Rightarrow> stroke_point list \<Rightarrow> nat \<Rightarrow> trace_state \<Rightarrow> trace_state" where
  "constantRadiusStep sz minDist points i st =
     emit_sample sz minDist points i (pt_pressure (points ! i)) (st\<lparr>st_r := sz / 2\<rparr>)"

function constantRadiusLoop ::
  "real \<Rightarrow> real \<Rightarrow> stroke_point list \<Rightarrow> nat \<Rightarrow> trace_state \<Rightarrow> trace_state" where
  "constantRadiusLoop sz minDist points i st =
     (if i < length points - 1
      then constantRadiusLoop sz minDist points (i + 1) (constantRadiusStep sz minDist points i st)
      else st)"
  by pat_completeness auto
termination
  by (relation "measure (\<lambda>(sz, minDist, points, i, st). length points - 1 - i)") auto

definition constantRadiusOutline :: "real \<Rightarrow> real \<Rightarrow> stroke_point list \<Rightarrow> vec2 list" where
  "constantRadiusOutline sz smoothing points =
     (if points = [] then []
      else if length points = 1 \<or> pt_clen (points ! (length points - 1)) \<le> sz / 4
      then dot_outline points (sz / 2) (init_state sz (points ! 0))
      else end_cap points
             ((constantRadiusLoop sz (sz * smoothing) points 1 (init_state sz (points ! 0)))
                \<lparr>st_r := sz / 2\<rparr>))"

section \<open>Binary64 arithmetic\<close>





section \<open>Properties\<close>

declare for_tenth.simps [simp del]
declare for_quarter.simps [simp del]
declare outline_loop.simps [simp del]
declare constantRadiusLoop.simps [simp del]

subsection \<open>The helpers\<close>

lemma clamp_mono: "p \<le> q \<Longrightarrow> clamp p a b \<le> clamp q a b"
  by (auto simp: clamp_def min_def max_def)

lemma clamp_bounds: "a \<le> b \<Longrightarrow> a \<le> clamp n a b \<and> clamp n a b \<le> b"
  by (auto simp: clamp_def min_def max_def)

lemma lerp_mono_up: "y1 \<le> y2 \<Longrightarrow> p \<le> q \<Longrightarrow> lerp y1 y2 p \<le> lerp y1 y2 q"
proof -
  assume a: "y1 \<le> y2" "p \<le> q"
  have "lerp y1 y2 q - lerp y1 y2 p = (y2 - y1) * (q - p)"
    by (simp add: lerp_def algebra_simps)
  moreover have "0 \<le> (y2 - y1) * (q - p)" using a by simp
  ultimately show ?thesis by linarith
qed

lemma lerp_mono_down: "y2 \<le> y1 \<Longrightarrow> p \<le> q \<Longrightarrow> lerp y1 y2 q \<le> lerp y1 y2 p"
proof -
  assume a: "y2 \<le> y1" "p \<le> q"
  have "lerp y1 y2 p - lerp y1 y2 q = (y1 - y2) * (q - p)"
    by (simp add: lerp_def algebra_simps)
  moreover have "0 \<le> (y1 - y2) * (q - p)" using a by simp
  ultimately show ?thesis by linarith
qed

lemma for_tenth_unroll:
  "for_tenth body 0 s =
     body 1 (body (9/10) (body (8/10) (body (7/10) (body (6/10) (body (5/10)
       (body (4/10) (body (3/10) (body (2/10) (body (1/10) (body 0 s))))))))))"
  by (simp add: for_tenth.simps)

lemma for_quarter_unroll:
  "for_quarter body 0 s = body 1 (body (3/4) (body (2/4) (body (1/4) (body 0 s))))"
  by (simp add: for_quarter.simps)

lemma getAngleDelta_pi_0: "getAngleDelta pi 0 = - pi"
  by (simp add: getAngleDelta_def)

subsection \<open>Rounding\<close>
































subsection \<open>The radius\<close>

text \<open>
  C4. Without a thinning (\<open>undefined\<close>), \<open>getStrokeRadius\<close> returns \<open>size / 2\<close>
  whatever the size, the easing and the pressure, a pressure in \<open>[0, 1]\<close>
  included.
\<close>

theorem getStrokeRadius_thinning_absent:
  "getStrokeRadius sz None easing pressure = sz / 2"
  by (simp add: getStrokeRadius_def)

text \<open>
  In exact arithmetic, with the identity easing and a positive size, the
  radius does not decrease with the pressure on \<open>[0, 1]\<close> when the thinning is
  in \<open>[0, 1]\<close>, and does not increase with it when the thinning is in
  \<open>[-1, 0)\<close>.
\<close>

lemma getStrokeRadius_monotone_exact:
  assumes "0 < sz" and "0 \<le> p" and "p \<le> q" and "q \<le> 1"
  shows "(0 \<le> th \<and> th \<le> 1 \<longrightarrow>
           getStrokeRadius sz (Some th) (\<lambda>t. t) (Some p)
             \<le> getStrokeRadius sz (Some th) (\<lambda>t. t) (Some q))
       \<and> (- 1 \<le> th \<and> th < 0 \<longrightarrow>
           getStrokeRadius sz (Some th) (\<lambda>t. t) (Some q)
             \<le> getStrokeRadius sz (Some th) (\<lambda>t. t) (Some p))"
proof (intro conjI impI)
  assume th: "0 \<le> th \<and> th \<le> 1"
  have c: "0 \<le> clamp th 0.05 0.95" using clamp_bounds[of "0.05" "0.95" th] by simp
  have "sz - sz * clamp th 0.05 0.95 \<le> sz" using assms(1) c by simp
  then have "lerp (sz - sz * clamp th 0.05 0.95) sz (clamp p 0 1)
      \<le> lerp (sz - sz * clamp th 0.05 0.95) sz (clamp q 0 1)"
    using clamp_mono[OF assms(3)] by (intro lerp_mono_up) auto
  then show "getStrokeRadius sz (Some th) (\<lambda>t. t) (Some p)
             \<le> getStrokeRadius sz (Some th) (\<lambda>t. t) (Some q)"
    using th by (simp add: getStrokeRadius_def)
next
  assume th: "- 1 \<le> th \<and> th < 0"
  have c: "clamp th (-0.95) (-0.05) \<le> 0" using clamp_bounds[of "-0.95" "-0.05" th] by simp
  have "sz + sz * clamp th (-0.95) (-0.05) \<le> sz" using assms(1) c
    by (simp add: mult_nonneg_nonpos)
  then have "lerp sz (sz + sz * clamp th (-0.95) (-0.05)) (clamp q 0 1)
      \<le> lerp sz (sz + sz * clamp th (-0.95) (-0.05)) (clamp p 0 1)"
    using clamp_mono[OF assms(3)] by (intro lerp_mono_down) auto
  then show "getStrokeRadius sz (Some th) (\<lambda>t. t) (Some q)
             \<le> getStrokeRadius sz (Some th) (\<lambda>t. t) (Some p)"
    using th by (simp add: getStrokeRadius_def)
qed












subsection \<open>The resampler\<close>

lemma length_resample: "length (resample s prev cs) = length cs"
  by (induction cs arbitrary: prev) (simp_all add: Let_def)

lemma getDistance_nonneg: "0 \<le> getDistance p q"
  by (simp add: getDistance_def)

lemma resample_link:
  "i < length cs \<Longrightarrow>
   pt_distance ((prev # resample s prev cs) ! Suc i)
     = getDistance (pos ((prev # resample s prev cs) ! Suc i)) (pos ((prev # resample s prev cs) ! i))
   \<and> pt_clen ((prev # resample s prev cs) ! Suc i)
     = pt_clen ((prev # resample s prev cs) ! i) + pt_distance ((prev # resample s prev cs) ! Suc i)"
proof (induction cs arbitrary: prev i)
  case Nil
  then show ?case by simp
next
  case (Cons c cs)
  show ?case
  proof (cases i)
    case 0
    then show ?thesis by (simp add: Let_def pos_def)
  next
    case (Suc k)
    then have "k < length cs" using Cons.prems by simp
    from Cons.IH[OF this] show ?thesis using Suc by (simp add: Let_def)
  qed
qed

lemma resample_clen_mono:
  "i \<le> j \<Longrightarrow> j \<le> length cs \<Longrightarrow>
   pt_clen ((prev # resample s prev cs) ! i) \<le> pt_clen ((prev # resample s prev cs) ! j)"
proof (induction j)
  case 0
  then show ?case by simp
next
  case (Suc j)
  show ?case
  proof (cases "i = Suc j")
    case True
    then show ?thesis by simp
  next
    case False
    then have ij: "i \<le> j" using Suc.prems by simp
    have j: "j < length cs" using Suc.prems by simp
    have "pt_clen ((prev # resample s prev cs) ! j) \<le> pt_clen ((prev # resample s prev cs) ! Suc j)"
      using resample_link[OF j, of prev s] getDistance_nonneg by simp
    moreover have "pt_clen ((prev # resample s prev cs) ! i) \<le> pt_clen ((prev # resample s prev cs) ! j)"
      using Suc.IH[OF ij] j by simp
    ultimately show ?thesis by linarith
  qed
qed

lemma getStrokePoints_Cons:
  "getStrokePoints (p # ps) streamline =
     (let first = \<lparr>pt_x = in_x p, pt_y = in_y p,
                   pt_pressure = (if (case in_pressure p of None \<Rightarrow> 0.5 | Some v \<Rightarrow> v) \<noteq> 0
                                  then (case in_pressure p of None \<Rightarrow> 0.5 | Some v \<Rightarrow> v) else 0.5),
                   pt_angle = 0, pt_distance = 0, pt_clen = 0\<rparr>
      in first # resample (case streamline of None \<Rightarrow> 0.5 | Some s \<Rightarrow> s) first (toPointsArray ps))"
  by (simp add: getStrokePoints_def toPointsArray_def Let_def)

lemma getStrokePoints_Nil: "getStrokePoints [] streamline = []"
  by (simp add: getStrokePoints_def toPointsArray_def)

text \<open>
  C3. In the result of \<open>getStrokePoints\<close>, for every input and every streamline
  (absent or given): the first element has angle, distance and running length
  0; the distance of every later element is non-negative and is the Euclidean
  norm between its resampled position and the resampled position before it;
  the running length never decreases along the sequence.
\<close>

theorem getStrokePoints_annotations:
  "let out = getStrokePoints points streamline in
     (out \<noteq> [] \<longrightarrow> pt_angle (out ! 0) = 0 \<and> pt_distance (out ! 0) = 0 \<and> pt_clen (out ! 0) = 0)
   \<and> (\<forall>i. 0 < i \<and> i < length out \<longrightarrow>
          0 \<le> pt_distance (out ! i)
        \<and> pt_distance (out ! i)
            = sqrt ((pt_x (out ! i) - pt_x (out ! (i - 1)))\<^sup>2
                  + (pt_y (out ! i) - pt_y (out ! (i - 1)))\<^sup>2))
   \<and> (\<forall>i j. i \<le> j \<and> j < length out \<longrightarrow> pt_clen (out ! i) \<le> pt_clen (out ! j))"
proof (cases points)
  case Nil
  then show ?thesis by (simp add: getStrokePoints_Nil)
next
  case (Cons p ps)
  define s where "s = (case streamline of None \<Rightarrow> 0.5 | Some s \<Rightarrow> s)"
  define first where "first = \<lparr>pt_x = in_x p, pt_y = in_y p,
      pt_pressure = (if (case in_pressure p of None \<Rightarrow> 0.5 | Some v \<Rightarrow> v) \<noteq> 0
                     then (case in_pressure p of None \<Rightarrow> 0.5 | Some v \<Rightarrow> v) else 0.5),
      pt_angle = 0, pt_distance = 0, pt_clen = 0\<rparr>"
  define cs where "cs = toPointsArray ps"
  define out where "out = first # resample s first cs"
  have out: "getStrokePoints points streamline = out"
    unfolding out_def first_def s_def cs_def Cons by (simp add: getStrokePoints_Cons Let_def)
  have len: "length out = Suc (length cs)" by (simp add: out_def length_resample)
  have a: "pt_angle (out ! 0) = 0 \<and> pt_distance (out ! 0) = 0 \<and> pt_clen (out ! 0) = 0"
    by (simp add: out_def first_def)
  have b: "0 \<le> pt_distance (out ! i)
        \<and> pt_distance (out ! i)
            = sqrt ((pt_x (out ! i) - pt_x (out ! (i - 1)))\<^sup>2
                  + (pt_y (out ! i) - pt_y (out ! (i - 1)))\<^sup>2)"
    if h: "0 < i \<and> i < length out" for i
  proof -
    obtain k where k: "i = Suc k" using h by (cases i) auto
    have "k < length cs" using h len k by simp
    from resample_link[OF this, of first s]
    have "pt_distance (out ! i) = getDistance (pos (out ! i)) (pos (out ! (i - 1)))"
      by (simp add: out_def k)
    then show ?thesis using getDistance_nonneg[of "pos (out ! i)" "pos (out ! (i - 1))"]
      by (simp add: getDistance_def pos_def power2_commute)
  qed
  have c: "pt_clen (out ! i) \<le> pt_clen (out ! j)" if "i \<le> j \<and> j < length out" for i j
    using resample_clen_mono[of i j cs first s] that len by (simp add: out_def)
  show ?thesis unfolding out Let_def using a b c by blast
qed

theorem getStrokePoints_annotations_witness:
  "let out = getStrokePoints [\<lparr>in_x = 0, in_y = 0, in_pressure = None\<rparr>,
                              \<lparr>in_x = 3, in_y = 4, in_pressure = None\<rparr>] (Some 0) in
     length out = 2
   \<and> pt_angle (out ! 0) = 0 \<and> pt_distance (out ! 0) = 0 \<and> pt_clen (out ! 0) = 0
   \<and> 0 \<le> pt_distance (out ! 1)
   \<and> pt_distance (out ! 1) = sqrt ((pt_x (out ! 1) - pt_x (out ! 0))\<^sup>2 + (pt_y (out ! 1) - pt_y (out ! 0))\<^sup>2)
   \<and> pt_clen (out ! 0) \<le> pt_clen (out ! 1)
   \<and> pt_x (out ! 1) = 3 \<and> pt_y (out ! 1) = 4 \<and> (pt_clen (out ! 1))\<^sup>2 = 25"
  using getStrokePoints_annotations[of "[\<lparr>in_x = 0, in_y = 0, in_pressure = None\<rparr>,
                              \<lparr>in_x = 3, in_y = 4, in_pressure = None\<rparr>]" "Some 0"]
  by (simp add: Let_def getStrokePoints_Cons toPointsArray_def lerp_def getDistance_def pos_def)

lemma lerp_one: "lerp a b 1 = b" by (simp add: lerp_def)
lemma lerp_zero: "lerp a b 0 = a" by (simp add: lerp_def)

lemma resample_streamline_zero:
  "map pos (resample 0 prev cs) = map pos cs"
  by (induction cs arbitrary: prev) (simp_all add: Let_def lerp_one pos_def)

lemma resample_streamline_one:
  "i < length cs \<Longrightarrow> pos (resample 1 prev cs ! i) = pos prev"
proof (induction cs arbitrary: prev i)
  case Nil
  then show ?case by simp
next
  case (Cons c cs)
  show ?case
  proof (cases i)
    case 0
    then show ?thesis by (simp add: Let_def lerp_zero pos_def)
  next
    case (Suc k)
    then have "k < length cs" using Cons.prems by simp
    from Cons.IH[OF this] show ?thesis using Suc by (simp add: Let_def lerp_zero pos_def)
  qed
qed

text \<open>
  C8. With the streamline 0 every output position is the raw input position;
  with the streamline 1 the output is as long as the input and every position
  is the position of the first input point.
\<close>

theorem getStrokePoints_streamline_extremes:
  "map pos (getStrokePoints points (Some 0)) = map (\<lambda>p. (in_x p, in_y p)) points
   \<and> length (getStrokePoints points (Some 1)) = length points
   \<and> (\<forall>i. i < length points \<longrightarrow>
         pos (getStrokePoints points (Some 1) ! i) = (in_x (points ! 0), in_y (points ! 0)))"
proof (cases points)
  case Nil
  then show ?thesis by (simp add: getStrokePoints_Nil)
next
  case (Cons p ps)
  have a: "map pos (getStrokePoints points (Some 0)) = map (\<lambda>p. (in_x p, in_y p)) points"
    unfolding Cons
    by (simp add: getStrokePoints_Cons Let_def resample_streamline_zero)
       (simp add: toPointsArray_def pos_def comp_def)
  have b: "length (getStrokePoints points (Some 1)) = length points"
    unfolding Cons by (simp add: getStrokePoints_Cons Let_def length_resample toPointsArray_def)
  have c: "pos (getStrokePoints points (Some 1) ! i) = (in_x (points ! 0), in_y (points ! 0))"
    if "i < length points" for i
  proof (cases i)
    case 0
    then show ?thesis unfolding Cons by (simp add: getStrokePoints_Cons Let_def pos_def)
  next
    case (Suc k)
    then have "k < length (toPointsArray ps)" using that Cons by (simp add: toPointsArray_def)
    from resample_streamline_one[OF this] show ?thesis
      unfolding Cons using Suc by (simp add: getStrokePoints_Cons Let_def pos_def)
  qed
  show ?thesis using a b c by blast
qed

theorem getStrokePoints_streamline_extremes_witness:
  "map pos (getStrokePoints [\<lparr>in_x = 1, in_y = 2, in_pressure = None\<rparr>,
                              \<lparr>in_x = 3, in_y = 4, in_pressure = Some 1\<rparr>] (Some 0)) = [(1, 2), (3, 4)]
   \<and> length (getStrokePoints [\<lparr>in_x = 1, in_y = 2, in_pressure = None\<rparr>,
                              \<lparr>in_x = 3, in_y = 4, in_pressure = Some 1\<rparr>] (Some 1)) = 2
   \<and> pos (getStrokePoints [\<lparr>in_x = 1, in_y = 2, in_pressure = None\<rparr>,
                              \<lparr>in_x = 3, in_y = 4, in_pressure = Some 1\<rparr>] (Some 1) ! 1) = (1, 2)"
  using getStrokePoints_streamline_extremes[of "[\<lparr>in_x = 1, in_y = 2, in_pressure = None\<rparr>,
                              \<lparr>in_x = 3, in_y = 4, in_pressure = Some 1\<rparr>]"]
  by simp

text \<open>
  C10. A first input point with the pressure 0 comes out of \<open>getStrokePoints\<close>
  with the pressure 0.5, and the whole result is the one of the same input
  with no pressure on the first point: \<open>pts[0][2] || 0.5\<close> cannot tell the two
  apart.
\<close>

theorem getStrokePoints_first_pressure_zero:
  "pt_pressure (getStrokePoints
       (\<lparr>in_x = x0, in_y = y0, in_pressure = Some 0\<rparr> # rest) streamline ! 0) = 0.5
   \<and> getStrokePoints (\<lparr>in_x = x0, in_y = y0, in_pressure = Some 0\<rparr> # rest) streamline
     = getStrokePoints (\<lparr>in_x = x0, in_y = y0, in_pressure = None\<rparr> # rest) streamline"
  by (simp add: getStrokePoints_def toPointsArray_def Let_def)

subsection \<open>The tracer\<close>

text \<open>
  C1. On the empty sequence \<open>getStrokeOutlinePoints\<close> does not return the empty
  outline: the read \<open>points[len - 1][5]\<close> throws a TypeError before the test
  \<open>len === 0\<close> is reached. \<open>getStroke\<close> on the empty list of points ends the
  same way, since \<open>getStrokePoints\<close> returns the empty array for it.
\<close>

theorem getStrokeOutlinePoints_empty_throws:
  "getStrokeOutlinePoints [] options = Inl TypeError
   \<and> getStroke [] options = Inl TypeError"
  by (simp add: getStroke_def getStrokePoints_Nil getStrokeOutlinePoints_def js_index_def)

text \<open>Every other sequence has an outline.\<close>

lemma getStrokeOutlinePoints_nonempty_returns:
  "points \<noteq> [] \<Longrightarrow> \<exists>ps. getStrokeOutlinePoints points options = Inr ps"
  by (simp add: getStrokeOutlinePoints_def js_index_def Let_def)

lemma for_tenth_invariant:
  "(\<And>t s. P s \<Longrightarrow> P (body t s)) \<Longrightarrow> P s \<Longrightarrow> P (for_tenth body t s)"
proof (induction body t s rule: for_tenth.induct)
  case (1 body t s)
  show ?case
  proof (cases "t \<le> 1")
    case True
    have "P (body t s)" by (rule "1.prems"(1)[OF "1.prems"(2)])
    from "1.IH"[OF True "1.prems"(1) this] show ?thesis
      using True by (simp add: for_tenth.simps[of body t s])
  next
    case False
    then show ?thesis using "1.prems"(2) by (simp add: for_tenth.simps[of body t s])
  qed
qed

lemma for_quarter_invariant:
  "(\<And>t s. P s \<Longrightarrow> P (body t s)) \<Longrightarrow> P s \<Longrightarrow> P (for_quarter body t s)"
proof (induction body t s rule: for_quarter.induct)
  case (1 body t s)
  show ?case
  proof (cases "t \<le> 1")
    case True
    have "P (body t s)" by (rule "1.prems"(1)[OF "1.prems"(2)])
    from "1.IH"[OF True "1.prems"(1) this] show ?thesis
      using True by (simp add: for_quarter.simps[of body t s])
  next
    case False
    then show ?thesis using "1.prems"(2) by (simp add: for_quarter.simps[of body t s])
  qed
qed

lemma st_r_start_cap: "st_r (start_cap points angle st) = st_r st"
proof -
  have "st_r (for_tenth
            (\<lambda>t s. let tl = projectPoint (pos (points ! 0)) (angle + TAU - t * pi) (st_r s)
                    in s\<lparr>st_tl := tl, leftPts := leftPts s @ [tl]\<rparr>)
            0 (st\<lparr>st_short := False\<rparr>)) = st_r st"
    by (rule for_tenth_invariant[where P = "\<lambda>s. st_r s = st_r st"]) (simp_all add: Let_def)
  then show ?thesis by (simp add: start_cap_def Let_def)
qed

lemma st_r_sharp_cap: "st_r (sharp_cap xy st) = st_r st"
  unfolding sharp_cap_def
  by (rule for_quarter_invariant[where P = "\<lambda>s. st_r s = st_r st"]) (simp_all add: Let_def)

lemma st_r_regular_point: "st_r (regular_point minDist xy angle absDelta pressure st) = st_r st"
  by (simp add: regular_point_def Let_def)

lemma st_r_emit_sample: "st_r (emit_sample sz minDist points i pressure st) = st_r st"
  by (simp add: emit_sample_def Let_def st_r_start_cap st_r_sharp_cap st_r_regular_point)

lemma outline_step_thinning_zero:
  "outline_step sz 0 simulatePressure easing minDist points i st
     = emit_sample sz minDist points i (pt_pressure (points ! i)) st"
  by (simp add: outline_step_def sample_radius_def)

lemma record_r_id: "st_r (st :: trace_state) = v \<Longrightarrow> st\<lparr>st_r := v\<rparr> = st"
  by simp

lemma outline_loop_thinning_zero:
  "st_r st = sz / 2 \<Longrightarrow>
   outline_loop sz 0 simulatePressure easing minDist points i st
     = constantRadiusLoop sz minDist points i st
   \<and> st_r (constantRadiusLoop sz minDist points i st) = sz / 2"
proof (induction sz minDist points i st rule: constantRadiusLoop.induct)
  case (1 sz minDist points i st)
  show ?case
  proof (cases "i < length points - 1")
    case True
    have "st\<lparr>st_r := sz / 2\<rparr> = st" using "1.prems" by (rule record_r_id)
    then have step: "outline_step sz 0 simulatePressure easing minDist points i st
        = constantRadiusStep sz minDist points i st"
      by (simp only: outline_step_thinning_zero constantRadiusStep_def)
    have "st_r (constantRadiusStep sz minDist points i st) = sz / 2"
      by (simp add: constantRadiusStep_def st_r_emit_sample)
    from "1.IH"[OF True this] show ?thesis
      using True step
      by (simp add: outline_loop.simps[of sz 0 simulatePressure easing minDist points i st]
                    constantRadiusLoop.simps[of sz minDist points i st])
  next
    case False
    then show ?thesis using "1.prems"
      by (simp add: outline_loop.simps[of sz 0 simulatePressure easing minDist points i st]
                    constantRadiusLoop.simps[of sz minDist points i st])
  qed
qed

lemma getStrokeRadius_thinning_zero_value:
  "getStrokeRadius sz (Some 0) easing p
     = (0.95 * sz + 0.05 * sz * clamp (easing (case p of None \<Rightarrow> 0.5 | Some v \<Rightarrow> v)) 0 1) / 2"
  by (simp add: getStrokeRadius_def lerp_def Let_def) (simp add: clamp_def algebra_simps)

text \<open>
  C9. With the thinning 0 the test \<open>if (thinning)\<close> fails at every sample, so
  neither the simulated pressure nor \<open>getStrokeRadius\<close> is used: on every
  sequence that has an outline, the outline is the one of the tracer at the
  constant radius \<open>size / 2\<close> (the empty sequence throws, as for every
  thinning). \<open>getStrokeRadius\<close> itself, called with the thinning 0, would
  return a value in \<open>[0.475 size, 0.5 size]\<close> that depends on the pressure.
\<close>

theorem thinning_zero_constant_radius:
  "getStrokeOutlinePoints points (options\<lparr>opt_thinning := Some 0\<rparr>)
     = (if points = [] then Inl TypeError
        else Inr (constantRadiusOutline (case opt_size options of None \<Rightarrow> 8 | Some v \<Rightarrow> v)
                    (case opt_smoothing options of None \<Rightarrow> 0.5 | Some v \<Rightarrow> v) points))
   \<and> (0 \<le> sz \<longrightarrow> 0.475 * sz \<le> getStrokeRadius sz (Some 0) easing p
                  \<and> getStrokeRadius sz (Some 0) easing p \<le> 0.5 * sz)
   \<and> getStrokeRadius sz (Some 0) (\<lambda>t. t) (Some 0) = 0.475 * sz
   \<and> getStrokeRadius sz (Some 0) (\<lambda>t. t) (Some 1) = 0.5 * sz"
proof (intro conjI impI)
  define s where "s = (case opt_size options of None \<Rightarrow> 8 | Some v \<Rightarrow> v)"
  define sm where "sm = (case opt_smoothing options of None \<Rightarrow> 0.5 | Some v \<Rightarrow> v)"
  show "getStrokeOutlinePoints points (options\<lparr>opt_thinning := Some 0\<rparr>)
     = (if points = [] then Inl TypeError
        else Inr (constantRadiusOutline (case opt_size options of None \<Rightarrow> 8 | Some v \<Rightarrow> v)
                    (case opt_smoothing options of None \<Rightarrow> 0.5 | Some v \<Rightarrow> v) points))"
  proof (cases "points = []")
    case True
    then show ?thesis by (simp add: getStrokeOutlinePoints_def js_index_def)
  next
    case False
    then have len: "0 < length points" by simp
    have r0: "st_r (init_state s (points ! 0)) = s / 2" by (simp add: init_state_def)
    note loop = outline_loop_thinning_zero[OF r0]
    show ?thesis
      using False len
      by (simp add: getStrokeOutlinePoints_def js_index_def Let_def constantRadiusOutline_def
            nat_diff_distrib' loop record_r_id flip: s_def sm_def)
         (simp add: init_state_def)
  qed
next
  assume sz: "0 \<le> sz"
  have c: "0 \<le> clamp (easing (case p of None \<Rightarrow> 0.5 | Some v \<Rightarrow> v)) 0 1
         \<and> clamp (easing (case p of None \<Rightarrow> 0.5 | Some v \<Rightarrow> v)) 0 1 \<le> 1"
    using clamp_bounds[of 0 1] by simp
  have "0 \<le> sz * clamp (easing (case p of None \<Rightarrow> 0.5 | Some v \<Rightarrow> v)) 0 1" using sz c by simp
  then show "0.475 * sz \<le> getStrokeRadius sz (Some 0) easing p"
    by (simp add: getStrokeRadius_thinning_zero_value)
  have "sz * clamp (easing (case p of None \<Rightarrow> 0.5 | Some v \<Rightarrow> v)) 0 1 \<le> sz * 1"
    using sz c by (intro mult_left_mono) auto
  then show "getStrokeRadius sz (Some 0) easing p \<le> 0.5 * sz"
    by (simp add: getStrokeRadius_thinning_zero_value)
next
  show "getStrokeRadius sz (Some 0) (\<lambda>t. t) (Some 0) = 0.475 * sz"
    by (simp add: getStrokeRadius_thinning_zero_value clamp_def)
  show "getStrokeRadius sz (Some 0) (\<lambda>t. t) (Some 1) = 0.5 * sz"
    by (simp add: getStrokeRadius_thinning_zero_value clamp_def)
qed

theorem thinning_zero_constant_radius_witness:
  "getStrokeOutlinePoints
     [\<lparr>pt_x = 0, pt_y = 0, pt_pressure = 1/2, pt_angle = 0, pt_distance = 0, pt_clen = 0\<rparr>]
     \<lparr>opt_size = Some 8, opt_thinning = Some 0, opt_smoothing = None,
      opt_streamline = None, opt_simulatePressure = None, opt_easing = None\<rparr>
   = Inr (constantRadiusOutline 8 (1/2)
       [\<lparr>pt_x = 0, pt_y = 0, pt_pressure = 1/2, pt_angle = 0, pt_distance = 0, pt_clen = 0\<rparr>])
   \<and> 475 / 1000 * 8 \<le> getStrokeRadius 8 (Some 0) (\<lambda>t. t) (Some (1/2))
   \<and> getStrokeRadius 8 (Some 0) (\<lambda>t. t) (Some (1/2)) \<le> 4"
  using thinning_zero_constant_radius[of
     "[\<lparr>pt_x = 0, pt_y = 0, pt_pressure = 1/2, pt_angle = 0, pt_distance = 0, pt_clen = 0\<rparr>]"
     "\<lparr>opt_size = Some 8, opt_thinning = None, opt_smoothing = None,
      opt_streamline = None, opt_simulatePressure = None, opt_easing = None\<rparr>"
     8 "\<lambda>t. t" "Some (1/2)"]
  by simp

lemma getDistance_projectPoint: "getDistance (projectPoint p a d) p = \<bar>d\<bar>"
proof -
  have e: "(cos a)\<^sup>2 + (sin a)\<^sup>2 = 1" by simp
  have "(fst p - (cos a * d + fst p))\<^sup>2 + (snd p - (sin a * d + snd p))\<^sup>2
        = (cos a * d)\<^sup>2 + (sin a * d)\<^sup>2"
    by (simp add: power2_eq_square)
  also have "\<dots> = d\<^sup>2 * (cos a)\<^sup>2 + d\<^sup>2 * (sin a)\<^sup>2"
    by (simp add: power_mult_distrib mult.commute)
  also have "\<dots> = d\<^sup>2 * ((cos a)\<^sup>2 + (sin a)\<^sup>2)"
    by (simp only: distrib_left)
  also have "\<dots> = d\<^sup>2" unfolding e by simp
  finally show ?thesis by (simp add: getDistance_def projectPoint_def)
qed

lemma lerp_nonneg: "0 \<le> y1 \<Longrightarrow> 0 \<le> y2 \<Longrightarrow> 0 \<le> mu \<Longrightarrow> mu \<le> 1 \<Longrightarrow> 0 \<le> lerp y1 y2 mu"
  by (simp add: lerp_def)

lemma getStrokeRadius_nonneg:
  assumes "0 \<le> sz"
  shows "0 \<le> getStrokeRadius sz thinning easing pressure"
proof (cases thinning)
  case None
  then show ?thesis using assms by (simp add: getStrokeRadius_def)
next
  case (Some th)
  have q: "0 \<le> clamp v 0 1 \<and> clamp v 0 1 \<le> 1" for v
    using clamp_bounds[of 0 1 v] by simp
  have "- 1 \<le> clamp th (-0.95) (-0.05)"
    using clamp_bounds[of "-0.95" "-0.05" th] by simp
  then have "0 \<le> sz * (1 + clamp th (-0.95) (-0.05))" using assms by simp
  then have lo: "0 \<le> sz + sz * clamp th (-0.95) (-0.05)" by (simp add: algebra_simps)
  have "clamp th 0.05 0.95 \<le> 1"
    using clamp_bounds[of "0.05" "0.95" th] by simp
  then have "0 \<le> sz * (1 - clamp th 0.05 0.95)" using assms by simp
  then have hi: "0 \<le> sz - sz * clamp th 0.05 0.95" by (simp add: algebra_simps)
  show ?thesis
    using Some assms q lo hi by (simp add: getStrokeRadius_def Let_def lerp_nonneg)
qed

lemma dot_outline_single:
  "dot_outline [p] r st =
     leftPts st @ map (\<lambda>t. projectPoint (pos p) (getAngle (pos p) (pos p) + pi + TAU - t * pi) r)
           [0, 1/10, 2/10, 3/10, 4/10, 5/10, 6/10, 7/10, 8/10, 9/10, 1]
     @ rightPts st @ map (\<lambda>t. projectPoint (pos p) (getAngle (pos p) (pos p) + TAU - t * pi) r)
           [0, 1/10, 2/10, 3/10, 4/10, 5/10, 6/10, 7/10, 8/10, 9/10, 1]"
  by (simp add: dot_outline_def for_tenth_unroll Let_def)

lemma dot_outline_single_bound:
  assumes "0 \<le> r"
  shows "length (dot_outline [p] r (init_state sz p)) = 22
       \<and> (\<forall>q \<in> set (dot_outline [p] r (init_state sz p)). getDistance q (pos p) \<le> r)"
proof -
  have d: "getDistance (projectPoint (pos p) a r) (pos p) \<le> r" for a
    using getDistance_projectPoint[of "pos p" a r] assms by simp
  show ?thesis by (simp add: dot_outline_single init_state_def d)
qed

text \<open>
  In exact arithmetic: the single input point (0, 0) with the pressure 0.5, traced at the size 8
  with any thinning (absent included) and any other options: the outline has
  22 points, the sweep of 11 points from the first point followed by the sweep
  of 11 points from the last point, and every point is within the radius of
  (0, 0). The radius is \<open>getStrokeRadius\<close> at the last sample's pressure when
  the thinning is not 0, and \<open>size / 2\<close> when it is 0.
\<close>

lemma getStroke_single_point_dot_exact:
  "let options = \<lparr>opt_size = Some 8, opt_thinning = thinning, opt_smoothing = smoothing,
                   opt_streamline = streamline, opt_simulatePressure = simulatePressure,
                   opt_easing = easing\<rparr>;
       th = (case thinning of None \<Rightarrow> 0.5 | Some v \<Rightarrow> v);
       ea = (case easing of None \<Rightarrow> (\<lambda>t. t) | Some f \<Rightarrow> f);
       radius = (if th \<noteq> 0 then getStrokeRadius 8 (Some th) ea (Some (1/2)) else 8 / 2)
   in \<exists>ps. getStroke [\<lparr>in_x = 0, in_y = 0, in_pressure = Some (1/2)\<rparr>] options = Inr ps
          \<and> length ps = 22
          \<and> ps = map (\<lambda>t. projectPoint (0, 0) (getAngle (0, 0) (0, 0) + pi + TAU - t * pi) radius)
                     [0, 1/10, 2/10, 3/10, 4/10, 5/10, 6/10, 7/10, 8/10, 9/10, 1]
                 @ map (\<lambda>t. projectPoint (0, 0) (getAngle (0, 0) (0, 0) + TAU - t * pi) radius)
                     [0, 1/10, 2/10, 3/10, 4/10, 5/10, 6/10, 7/10, 8/10, 9/10, 1]
          \<and> (\<forall>q \<in> set ps. getDistance q (0, 0) \<le> radius)"
proof -
  let ?th = "(case thinning of None \<Rightarrow> 0.5 | Some v \<Rightarrow> v) :: real"
  let ?ea = "(case easing of None \<Rightarrow> (\<lambda>t. t) | Some f \<Rightarrow> f) :: real \<Rightarrow> real"
  let ?radius = "if ?th \<noteq> 0 then getStrokeRadius 8 (Some ?th) ?ea (Some (1/2)) else 8 / 2"
  let ?p0 = "\<lparr>pt_x = 0, pt_y = 0, pt_pressure = 1/2, pt_angle = 0,
              pt_distance = 0, pt_clen = 0\<rparr>"
  have rad: "0 \<le> ?radius" using getStrokeRadius_nonneg[of 8] by simp
  have pts: "getStrokePoints [\<lparr>in_x = 0, in_y = 0, in_pressure = Some (1/2)\<rparr>] streamline = [?p0]"
    by (simp add: getStrokePoints_Cons toPointsArray_def)
  have eq: "getStroke [\<lparr>in_x = 0, in_y = 0, in_pressure = Some (1/2)\<rparr>]
          \<lparr>opt_size = Some 8, opt_thinning = thinning, opt_smoothing = smoothing,
           opt_streamline = streamline, opt_simulatePressure = simulatePressure,
           opt_easing = easing\<rparr> = Inr (dot_outline [?p0] ?radius (init_state 8 ?p0))"
    unfolding getStroke_def getStrokeOutlinePoints_def
    by (simp add: pts js_index_def Let_def) (simp add: init_state_def)
  from dot_outline_single_bound[OF rad, of ?p0 8]
  have "length (dot_outline [?p0] ?radius (init_state 8 ?p0)) = 22
       \<and> (\<forall>q \<in> set (dot_outline [?p0] ?radius (init_state 8 ?p0)). getDistance q (0, 0) \<le> ?radius)"
    by (simp add: pos_def)
  moreover have "dot_outline [?p0] ?radius (init_state 8 ?p0)
      = map (\<lambda>t. projectPoint (0, 0) (getAngle (0, 0) (0, 0) + pi + TAU - t * pi) ?radius)
            [0, 1/10, 2/10, 3/10, 4/10, 5/10, 6/10, 7/10, 8/10, 9/10, 1]
        @ map (\<lambda>t. projectPoint (0, 0) (getAngle (0, 0) (0, 0) + TAU - t * pi) ?radius)
            [0, 1/10, 2/10, 3/10, 4/10, 5/10, 6/10, 7/10, 8/10, 9/10, 1]"
    unfolding dot_outline_single by (simp add: init_state_def pos_def)
  ultimately show ?thesis unfolding Let_def using eq by blast
qed

lemma getStroke_single_point_dot_exact_instance:
  "\<exists>ps. getStroke [\<lparr>in_x = 0, in_y = 0, in_pressure = Some (1/2)\<rparr>]
            \<lparr>opt_size = Some 8, opt_thinning = Some (1/2), opt_smoothing = None,
             opt_streamline = None, opt_simulatePressure = None, opt_easing = None\<rparr> = Inr ps
        \<and> length ps = 22 \<and> getDistance (ps ! 0) (0, 0) \<le> 3 \<and> getDistance (ps ! 21) (0, 0) \<le> 3"
proof -
  have r: "getStrokeRadius 8 (Some (1/2)) (\<lambda>t. t) (Some (1/2)) = 3"
    by (simp add: getStrokeRadius_def clamp_def lerp_def)
  from getStroke_single_point_dot_exact[of "Some (1/2)" None None None None]
  obtain ps where ps: "getStroke [\<lparr>in_x = 0, in_y = 0, in_pressure = Some (1/2)\<rparr>]
            \<lparr>opt_size = Some 8, opt_thinning = Some (1/2), opt_smoothing = None,
             opt_streamline = None, opt_simulatePressure = None, opt_easing = None\<rparr> = Inr ps"
      "length ps = 22" "\<forall>q \<in> set ps. getDistance q (0, 0) \<le> 3"
    unfolding Let_def by (auto simp: r)
  have "ps ! 0 \<in> set ps" "ps ! 21 \<in> set ps" using ps(2) by simp_all
  then show ?thesis using ps by blast
qed

lemma projectPoint_radius_inject:
  assumes "projectPoint p a d = projectPoint p a e"
  shows "d = e"
proof (rule ccontr)
  assume ne: "d \<noteq> e"
  from assms have c: "cos a * d = cos a * e" and s: "sin a * d = sin a * e"
    by (simp_all add: projectPoint_def)
  from c ne have "cos a = 0" by simp
  moreover from s ne have "sin a = 0" by simp
  moreover have "(sin a)\<^sup>2 + (cos a)\<^sup>2 = 1" by simp
  ultimately show False by simp
qed

text \<open>
  C2 (as amended). An absent thinning takes the default 0.5 of the
  destructuring: the outline is the one traced with the thinning 0.5, with the
  pressure modulating the radius.
\<close>

theorem thinning_absent_is_default:
  "getStrokeOutlinePoints points (options\<lparr>opt_thinning := None\<rparr>)
     = getStrokeOutlinePoints points (options\<lparr>opt_thinning := Some 0.5\<rparr>)"
  by (simp add: getStrokeOutlinePoints_def)

text \<open>
  C2 as stated fails: for the single point (0, 0) at the size 8 with the
  thinning absent, the outline is traced at the radius 3, not at the constant
  radius 4; it differs from the constant-radius outline and from the outline
  that the thinning 0 gives.
\<close>

theorem thinning_absent_constant_radius_counterexample:
  "getStrokeOutlinePoints
     [\<lparr>pt_x = 0, pt_y = 0, pt_pressure = 1/2, pt_angle = 0, pt_distance = 0, pt_clen = 0\<rparr>]
     \<lparr>opt_size = Some 8, opt_thinning = None, opt_smoothing = Some (1/2),
      opt_streamline = None, opt_simulatePressure = None, opt_easing = None\<rparr>
   \<noteq> Inr (constantRadiusOutline 8 (1/2)
       [\<lparr>pt_x = 0, pt_y = 0, pt_pressure = 1/2, pt_angle = 0, pt_distance = 0, pt_clen = 0\<rparr>])
   \<and> getStrokeOutlinePoints
     [\<lparr>pt_x = 0, pt_y = 0, pt_pressure = 1/2, pt_angle = 0, pt_distance = 0, pt_clen = 0\<rparr>]
     \<lparr>opt_size = Some 8, opt_thinning = None, opt_smoothing = Some (1/2),
      opt_streamline = None, opt_simulatePressure = None, opt_easing = None\<rparr>
   \<noteq> getStrokeOutlinePoints
     [\<lparr>pt_x = 0, pt_y = 0, pt_pressure = 1/2, pt_angle = 0, pt_distance = 0, pt_clen = 0\<rparr>]
     \<lparr>opt_size = Some 8, opt_thinning = Some 0, opt_smoothing = Some (1/2),
      opt_streamline = None, opt_simulatePressure = None, opt_easing = None\<rparr>"
proof -
  let ?p0 = "\<lparr>pt_x = 0, pt_y = 0, pt_pressure = 1/2, pt_angle = 0, pt_distance = 0, pt_clen = 0\<rparr>"
  have r: "getStrokeRadius 8 (Some (1/2)) (\<lambda>t. t) (Some (1/2)) = 3"
    by (simp add: getStrokeRadius_def clamp_def lerp_def)
  have l: "getStrokeOutlinePoints [?p0]
     \<lparr>opt_size = Some 8, opt_thinning = None, opt_smoothing = Some (1/2),
      opt_streamline = None, opt_simulatePressure = None, opt_easing = None\<rparr>
     = Inr (dot_outline [?p0] 3 (init_state 8 ?p0))"
    by (simp add: getStrokeOutlinePoints_def js_index_def r Let_def)
  have c: "constantRadiusOutline 8 (1/2) [?p0] = dot_outline [?p0] 4 (init_state 8 ?p0)"
    by (simp add: constantRadiusOutline_def)
  have "dot_outline [?p0] 3 (init_state 8 ?p0) \<noteq> dot_outline [?p0] 4 (init_state 8 ?p0)"
  proof
    assume "dot_outline [?p0] 3 (init_state 8 ?p0) = dot_outline [?p0] 4 (init_state 8 ?p0)"
    then have "projectPoint (pos ?p0) (getAngle (pos ?p0) (pos ?p0) + pi + TAU - 0 * pi) 3
             = projectPoint (pos ?p0) (getAngle (pos ?p0) (pos ?p0) + pi + TAU - 0 * pi) 4"
      by (simp add: dot_outline_single init_state_def)
    from projectPoint_radius_inject[OF this] show False by simp
  qed
  moreover have "getStrokeOutlinePoints [?p0]
     \<lparr>opt_size = Some 8, opt_thinning = Some 0, opt_smoothing = Some (1/2),
      opt_streamline = None, opt_simulatePressure = None, opt_easing = None\<rparr>
     = Inr (dot_outline [?p0] 4 (init_state 8 ?p0))"
    by (simp add: getStrokeOutlinePoints_def js_index_def Let_def init_state_def)
  ultimately show ?thesis by (simp add: l c)
qed

lemma start_cap_unfold:
  "start_cap points angle st =
     st\<lparr>st_short := False,
        st_tl := projectPoint (pos (points ! 0)) (angle + TAU - 1 * pi) (st_r st),
        leftPts := leftPts st @ map (\<lambda>t. projectPoint (pos (points ! 0)) (angle + TAU - t * pi) (st_r st))
           [0, 1/10, 2/10, 3/10, 4/10, 5/10, 6/10, 7/10, 8/10, 9/10, 1],
        st_tr := projectPoint (pos (points ! 0)) (angle + TAU) (st_r st),
        rightPts := rightPts st @ [projectPoint (pos (points ! 0)) (angle + TAU) (st_r st)]\<rparr>"
  by (simp add: start_cap_def for_tenth_unroll Let_def)

lemma sharp_cap_unfold:
  "sharp_cap xy st =
     st\<lparr>st_tl := projectPoint xy (st_pa st - TAU + 1 * - pi) (st_r st),
        st_tr := projectPoint xy (st_pa st + TAU + 1 * pi) (st_r st),
        leftPts := leftPts st @ map (\<lambda>t. projectPoint xy (st_pa st - TAU + t * - pi) (st_r st))
           [0, 1/4, 2/4, 3/4, 1],
        rightPts := rightPts st @ map (\<lambda>t. projectPoint xy (st_pa st + TAU + t * pi) (st_r st))
           [0, 1/4, 2/4, 3/4, 1]\<rparr>"
  by (simp add: sharp_cap_def for_quarter_unroll Let_def)

text \<open>
  The loop body at a sample that the minimum-length test does not skip and
  whose angle differs from the next sample's by more than \<open>pi / 2\<close>, from any
  state.
\<close>

lemma outline_step_sharp_corner:
  assumes sharp: "SHARP < \<bar>getAngleDelta (pt_angle (points ! (i + 1))) (pt_angle (points ! i))\<bar>"
      and reached: "\<not> (st_short st \<and> pt_clen (points ! i) < sz / 4)"
  shows "let p = points ! i;
             r = snd (sample_radius sz thinning simulatePressure easing p st);
             st' = outline_step sz thinning simulatePressure easing minDist points i st;
             startL = (if st_short st
                       then map (\<lambda>t. projectPoint (pos (points ! 0)) (pt_angle p + TAU - t * pi) r)
                              [0, 1/10, 2/10, 3/10, 4/10, 5/10, 6/10, 7/10, 8/10, 9/10, 1]
                       else []);
             startR = (if st_short st
                       then [projectPoint (pos (points ! 0)) (pt_angle p + TAU) r] else []);
             fanL = map (\<lambda>t. projectPoint (pt_x p, pt_y p) (st_pa st - TAU + t * - pi) r)
                      [0, 1/4, 2/4, 3/4, 1];
             fanR = map (\<lambda>t. projectPoint (pt_x p, pt_y p) (st_pa st + TAU + t * pi) r)
                      [0, 1/4, 2/4, 3/4, 1]
         in leftPts st' = leftPts st @ startL @ fanL
          \<and> rightPts st' = rightPts st @ startR @ fanR
          \<and> st_pl st' = st_pl st \<and> st_pr st' = st_pr st
          \<and> st_pp st' = st_pp st \<and> st_pa st' = st_pa st
          \<and> st_short st' = False"
proof (cases "st_short st")
  case True
  with reached have g: "\<not> pt_clen (points ! i) < sz / 4" by simp
  show ?thesis
    using True g sharp
    by (simp add: outline_step_def emit_sample_def Let_def split_beta
          start_cap_unfold sharp_cap_unfold)
next
  case False
  show ?thesis
    using False sharp
    by (simp add: outline_step_def emit_sample_def Let_def split_beta sharp_cap_unfold)
qed

lemma outline_loop_fold:
  "outline_loop sz thinning simulatePressure easing minDist points j st
     = fold (\<lambda>k. outline_step sz thinning simulatePressure easing minDist points k)
         [j..<length points - 1] st"
proof (induction sz thinning simulatePressure easing minDist points j st rule: outline_loop.induct)
  case (1 sz thinning simulatePressure easing minDist points j st)
  show ?case
  proof (cases "j < length points - 1")
    case True
    from "1.IH"[OF True] show ?thesis
      using True
      by (simp add: outline_loop.simps[of sz thinning simulatePressure easing minDist points j st]
            upt_conv_Cons)
  next
    case False
    then show ?thesis
      by (simp add: outline_loop.simps[of sz thinning simulatePressure easing minDist points j st])
  qed
qed

lemma outline_loop_split:
  assumes "1 \<le> i" and "i < length points - 1"
  shows "outline_loop sz thinning simulatePressure easing minDist points 1 (init_state sz (points ! 0))
     = outline_loop sz thinning simulatePressure easing minDist points (i + 1)
         (outline_step sz thinning simulatePressure easing minDist points i
            (loop_state_at sz thinning simulatePressure easing minDist points i))"
proof -
  have "[1..<length points - 1] = [1..<i] @ i # [i + 1..<length points - 1]"
    using assms by (metis Suc_eq_plus1 less_imp_le_nat upt_add_eq_append upt_conv_Cons le_add_diff_inverse)
  then show ?thesis by (simp add: outline_loop_fold loop_state_at_def)
qed

lemma start_cap_ribs:
  "\<exists>ls rs. leftPts (start_cap points angle st) = leftPts st @ ls
         \<and> rightPts (start_cap points angle st) = rightPts st @ rs"
  by (simp add: start_cap_unfold)

lemma sharp_cap_ribs:
  "\<exists>ls rs. leftPts (sharp_cap xy st) = leftPts st @ ls
         \<and> rightPts (sharp_cap xy st) = rightPts st @ rs"
  by (simp add: sharp_cap_unfold)

lemma regular_point_ribs:
  "\<exists>ls rs. leftPts (regular_point minDist xy angle absDelta pressure st) = leftPts st @ ls
         \<and> rightPts (regular_point minDist xy angle absDelta pressure st) = rightPts st @ rs"
  by (simp add: regular_point_def Let_def)

lemma ribs_trans:
  assumes "\<exists>ls rs. leftPts b = leftPts a @ ls \<and> rightPts b = rightPts a @ rs"
      and "\<exists>ls rs. leftPts c = leftPts b @ ls \<and> rightPts c = rightPts b @ rs"
  shows "\<exists>ls rs. leftPts c = leftPts a @ ls \<and> rightPts c = rightPts a @ rs"
  using assms by auto

lemma emit_sample_ribs:
  "\<exists>ls rs. leftPts (emit_sample sz minDist points i pressure st) = leftPts st @ ls
         \<and> rightPts (emit_sample sz minDist points i pressure st) = rightPts st @ rs"
proof (cases "st_short st \<and> pt_clen (points ! i) < sz / 4")
  case True
  then show ?thesis by (simp add: emit_sample_def Let_def)
next
  case False
  define st2 where "st2 = (if st_short st then start_cap points (pt_angle (points ! i)) st else st)"
  have a: "\<exists>ls rs. leftPts st2 = leftPts st @ ls \<and> rightPts st2 = rightPts st @ rs"
    unfolding st2_def using start_cap_ribs[of points "pt_angle (points ! i)" st] by auto
  have b: "\<exists>ls rs. leftPts (emit_sample sz minDist points i pressure st) = leftPts st2 @ ls
         \<and> rightPts (emit_sample sz minDist points i pressure st) = rightPts st2 @ rs"
    using False sharp_cap_ribs[of "(pt_x (points ! i), pt_y (points ! i))" st2]
      regular_point_ribs[of minDist "(pt_x (points ! i), pt_y (points ! i))" "pt_angle (points ! i)"
        "\<bar>getAngleDelta (pt_angle (points ! (i + 1))) (pt_angle (points ! i))\<bar>" pressure st2]
    by (auto simp: emit_sample_def Let_def st2_def)
  from ribs_trans[OF a b] show ?thesis .
qed

lemma outline_step_ribs:
  "\<exists>ls rs. leftPts (outline_step sz thinning simulatePressure easing minDist points i st) = leftPts st @ ls
         \<and> rightPts (outline_step sz thinning simulatePressure easing minDist points i st) = rightPts st @ rs"
  using emit_sample_ribs[of sz minDist points i _ "st\<lparr>st_r := _\<rparr>"]
  by (simp add: outline_step_def split_beta Let_def)

lemma outline_loop_ribs:
  "\<exists>ls rs. leftPts (outline_loop sz thinning simulatePressure easing minDist points j st) = leftPts st @ ls
         \<and> rightPts (outline_loop sz thinning simulatePressure easing minDist points j st) = rightPts st @ rs"
proof (induction sz thinning simulatePressure easing minDist points j st rule: outline_loop.induct)
  case (1 sz thinning simulatePressure easing minDist points j st)
  show ?case
  proof (cases "j < length points - 1")
    case True
    from ribs_trans[OF outline_step_ribs "1.IH"[OF True]] show ?thesis
      using True
      by (simp add: outline_loop.simps[of sz thinning simulatePressure easing minDist points j st])
  next
    case False
    then show ?thesis
      by (simp add: outline_loop.simps[of sz thinning simulatePressure easing minDist points j st])
  qed
qed

lemma end_cap_unfold:
  "end_cap points st =
     leftPts st @ rev (rightPts st @
       map (\<lambda>t. projectPoint (pos (points ! (length points - 1)))
                  (pt_angle (points ! (length points - 1)) + TAU + t * pi) (st_r st))
           [0, 1/10, 2/10, 3/10, 4/10, 5/10, 6/10, 7/10, 8/10, 9/10, 1])"
  by (simp add: end_cap_def for_tenth_unroll Let_def)

lemma end_cap_ribs:
  "\<exists>rs. end_cap points st = leftPts st @ rev (rightPts st @ rs)"
  unfolding end_cap_unfold by blast

lemma getStrokeOutlinePoints_general:
  assumes "1 < length points"
      and "\<not> pt_clen (points ! (length points - 1))
             \<le> (case opt_size options of None \<Rightarrow> 8 | Some v \<Rightarrow> v) / 4"
  shows "getStrokeOutlinePoints points options =
     Inr (end_cap points
       (outline_loop (case opt_size options of None \<Rightarrow> 8 | Some v \<Rightarrow> v)
          (case opt_thinning options of None \<Rightarrow> 0.5 | Some v \<Rightarrow> v)
          (case opt_simulatePressure options of None \<Rightarrow> True | Some v \<Rightarrow> v)
          (case opt_easing options of None \<Rightarrow> (\<lambda>t. t) | Some f \<Rightarrow> f)
          ((case opt_size options of None \<Rightarrow> 8 | Some v \<Rightarrow> v)
             * (case opt_smoothing options of None \<Rightarrow> 0.5 | Some v \<Rightarrow> v))
          points 1
          (init_state (case opt_size options of None \<Rightarrow> 8 | Some v \<Rightarrow> v) (points ! 0))))"
proof -
  have ne: "points \<noteq> []" using assms(1) by auto
  show ?thesis
    using assms ne
    by (simp add: getStrokeOutlinePoints_def js_index_def Let_def nat_diff_distrib')
qed

text \<open>
  C7 (as amended). Let the stroke be longer than \<open>size / 4\<close>, so that
  \<open>getStrokeOutlinePoints\<close> runs its loop, let \<open>i\<close> be an interior sample
  (index 1 to length - 2) that the minimum-length test does not skip (\<open>short\<close>
  already false when the loop reaches it, or a running length of at least
  \<open>size / 4\<close>), and let its angle differ from the next sample's by more than
  \<open>pi / 2\<close>. With \<open>st\<close> the state in which the loop reaches the sample: the
  loop body appends to each rib the five points of the cap, projected from the
  sample's position around the previous angle \<open>pa\<close> with the steps 0, 1/4,
  1/2, 3/4 and 1 (after the start cap, when this is the sample that passes the
  test), adds no regular point and leaves \<open>pl\<close>, \<open>pr\<close>, \<open>pp\<close> and \<open>pa\<close> as
  they were; the loop goes on with the sample \<open>i + 1\<close>, and the outline
  returned holds these points: the left rib so far, the cap, then what the
  later samples add, followed by the reverse of the same on the right.
\<close>

theorem getStrokeOutlinePoints_sharp_corner:
  assumes sz: "sz = (case opt_size options of None \<Rightarrow> 8 | Some v \<Rightarrow> v)"
      and th: "thinning = (case opt_thinning options of None \<Rightarrow> 0.5 | Some v \<Rightarrow> v)"
      and sp: "simulatePressure = (case opt_simulatePressure options of None \<Rightarrow> True | Some v \<Rightarrow> v)"
      and ea: "easing = (case opt_easing options of None \<Rightarrow> (\<lambda>t. t) | Some f \<Rightarrow> f)"
      and md: "minDist = sz * (case opt_smoothing options of None \<Rightarrow> 0.5 | Some v \<Rightarrow> v)"
      and st: "st = loop_state_at sz thinning simulatePressure easing minDist points i"
      and nodot: "\<not> pt_clen (points ! (length points - 1)) \<le> sz / 4"
      and interior: "1 \<le> i \<and> i < length points - 1"
      and reached: "\<not> (st_short st \<and> pt_clen (points ! i) < sz / 4)"
      and sharp: "SHARP < \<bar>getAngleDelta (pt_angle (points ! (i + 1))) (pt_angle (points ! i))\<bar>"
  shows "let p = points ! i;
             r = snd (sample_radius sz thinning simulatePressure easing p st);
             st' = outline_step sz thinning simulatePressure easing minDist points i st;
             startL = (if st_short st
                       then map (\<lambda>t. projectPoint (pos (points ! 0)) (pt_angle p + TAU - t * pi) r)
                              [0, 1/10, 2/10, 3/10, 4/10, 5/10, 6/10, 7/10, 8/10, 9/10, 1]
                       else []);
             startR = (if st_short st
                       then [projectPoint (pos (points ! 0)) (pt_angle p + TAU) r] else []);
             fanL = map (\<lambda>t. projectPoint (pt_x p, pt_y p) (st_pa st - TAU + t * - pi) r)
                      [0, 1/4, 2/4, 3/4, 1];
             fanR = map (\<lambda>t. projectPoint (pt_x p, pt_y p) (st_pa st + TAU + t * pi) r)
                      [0, 1/4, 2/4, 3/4, 1]
         in (\<exists>ls rs. getStrokeOutlinePoints points options
                  = Inr ((leftPts st @ startL @ fanL @ ls) @ rev (rightPts st @ startR @ fanR @ rs)))
          \<and> getStrokeOutlinePoints points options
              = Inr (end_cap points
                  (outline_loop sz thinning simulatePressure easing minDist points (i + 1) st'))
          \<and> leftPts st' = leftPts st @ startL @ fanL
          \<and> rightPts st' = rightPts st @ startR @ fanR
          \<and> st_pl st' = st_pl st \<and> st_pr st' = st_pr st
          \<and> st_pp st' = st_pp st \<and> st_pa st' = st_pa st"
proof -
  define p where "p = points ! i"
  define r where "r = snd (sample_radius sz thinning simulatePressure easing p st)"
  define st' where "st' = outline_step sz thinning simulatePressure easing minDist points i st"
  define startL where "startL = (if st_short st
                       then map (\<lambda>t. projectPoint (pos (points ! 0)) (pt_angle p + TAU - t * pi) r)
                              [0, 1/10, 2/10, 3/10, 4/10, 5/10, 6/10, 7/10, 8/10, 9/10, 1]
                       else [])"
  define startR where "startR = (if st_short st
                       then [projectPoint (pos (points ! 0)) (pt_angle p + TAU) r] else [])"
  define fanL where "fanL = map (\<lambda>t. projectPoint (pt_x p, pt_y p) (st_pa st - TAU + t * - pi) r)
                      [0, 1/4, 2/4, 3/4, 1]"
  define fanR where "fanR = map (\<lambda>t. projectPoint (pt_x p, pt_y p) (st_pa st + TAU + t * pi) r)
                      [0, 1/4, 2/4, 3/4, 1]"
  from outline_step_sharp_corner[OF sharp reached, of thinning simulatePressure easing minDist]
  have step: "leftPts st' = leftPts st @ startL @ fanL" "rightPts st' = rightPts st @ startR @ fanR"
     "st_pl st' = st_pl st" "st_pr st' = st_pr st" "st_pp st' = st_pp st" "st_pa st' = st_pa st"
    unfolding Let_def p_def r_def st'_def startL_def startR_def fanL_def fanR_def by simp_all
  have len: "1 < length points" using interior by linarith
  have whole: "getStrokeOutlinePoints points options
      = Inr (end_cap points
          (outline_loop sz thinning simulatePressure easing minDist points (i + 1) st'))"
    using getStrokeOutlinePoints_general[OF len, of options] nodot interior
      outline_loop_split[of i points sz thinning simulatePressure easing minDist]
    unfolding st'_def st sz th sp ea md by simp
  obtain ls rs where grow:
      "leftPts (outline_loop sz thinning simulatePressure easing minDist points (i + 1) st')
         = leftPts st' @ ls"
      "rightPts (outline_loop sz thinning simulatePressure easing minDist points (i + 1) st')
         = rightPts st' @ rs"
    using outline_loop_ribs[of sz thinning simulatePressure easing minDist points "i + 1" st'] by blast
  obtain cap where cap: "end_cap points
          (outline_loop sz thinning simulatePressure easing minDist points (i + 1) st')
       = leftPts (outline_loop sz thinning simulatePressure easing minDist points (i + 1) st')
         @ rev (rightPts (outline_loop sz thinning simulatePressure easing minDist points (i + 1) st')
                @ cap)"
    using end_cap_ribs by blast
  have "getStrokeOutlinePoints points options
      = Inr ((leftPts st @ startL @ fanL @ ls) @ rev (rightPts st @ startR @ fanR @ (rs @ cap)))"
    unfolding whole cap grow step by simp
  then have ex: "\<exists>ls rs. getStrokeOutlinePoints points options
                  = Inr ((leftPts st @ startL @ fanL @ ls) @ rev (rightPts st @ startR @ fanR @ rs))"
    by blast
  show ?thesis
    unfolding Let_def
    using ex whole step
    unfolding p_def r_def st'_def startL_def startR_def fanL_def fanR_def
    by (intro conjI)
qed

theorem getStrokeOutlinePoints_sharp_corner_witness:
  "let pts = [\<lparr>pt_x = 0, pt_y = 0, pt_pressure = 1/2, pt_angle = 0, pt_distance = 0, pt_clen = 0\<rparr>,
              \<lparr>pt_x = 10, pt_y = 0, pt_pressure = 1/2, pt_angle = 0, pt_distance = 10, pt_clen = 10\<rparr>,
              \<lparr>pt_x = 0, pt_y = 0, pt_pressure = 1/2, pt_angle = pi, pt_distance = 10, pt_clen = 20\<rparr>];
       opts = \<lparr>opt_size = Some 8, opt_thinning = Some 0, opt_smoothing = Some (1/2),
               opt_streamline = None, opt_simulatePressure = Some False, opt_easing = Some id\<rparr>;
       st' = outline_step 8 0 False id 4 pts 1 (init_state 8 (pts ! 0))
   in SHARP < \<bar>getAngleDelta (pt_angle (pts ! 2)) (pt_angle (pts ! 1))\<bar>
    \<and> \<not> pt_clen (pts ! 2) \<le> 8 / 4
    \<and> loop_state_at 8 0 False id 4 pts 1 = init_state 8 (pts ! 0)
    \<and> getStrokeOutlinePoints pts opts = Inr (end_cap pts st')
    \<and> (\<exists>ls rs. getStrokeOutlinePoints pts opts
          = Inr ((map (\<lambda>t. projectPoint (0, 0) (0 + TAU - t * pi) 4)
                    [0, 1/10, 2/10, 3/10, 4/10, 5/10, 6/10, 7/10, 8/10, 9/10, 1]
                  @ map (\<lambda>t. projectPoint (10, 0) (0 - TAU + t * - pi) 4) [0, 1/4, 2/4, 3/4, 1]
                  @ ls)
                 @ rev ([projectPoint (0, 0) (0 + TAU) 4]
                  @ map (\<lambda>t. projectPoint (10, 0) (0 + TAU + t * pi) 4) [0, 1/4, 2/4, 3/4, 1]
                  @ rs)))
    \<and> length (leftPts st') = 16 \<and> length (rightPts st') = 6
    \<and> st_pa st' = 0 \<and> st_pp st' = 0"
proof -
  let ?pts = "[\<lparr>pt_x = 0, pt_y = 0, pt_pressure = 1/2, pt_angle = 0, pt_distance = 0, pt_clen = 0\<rparr>,
              \<lparr>pt_x = 10, pt_y = 0, pt_pressure = 1/2, pt_angle = 0, pt_distance = 10, pt_clen = 10\<rparr>,
              \<lparr>pt_x = 0, pt_y = 0, pt_pressure = 1/2, pt_angle = pi, pt_distance = 10, pt_clen = 20\<rparr>]"
  let ?opts = "\<lparr>opt_size = Some 8, opt_thinning = Some 0, opt_smoothing = Some (1/2),
               opt_streamline = None, opt_simulatePressure = Some False, opt_easing = Some id\<rparr>"
  let ?st = "init_state 8 (?pts ! 0)"
  have sz: "(8::real) = (case opt_size ?opts of None \<Rightarrow> 8 | Some v \<Rightarrow> v)" by simp
  have th: "(0::real) = (case opt_thinning ?opts of None \<Rightarrow> 0.5 | Some v \<Rightarrow> v)" by simp
  have sp: "False = (case opt_simulatePressure ?opts of None \<Rightarrow> True | Some v \<Rightarrow> v)" by simp
  have ea: "id = (case opt_easing ?opts of None \<Rightarrow> (\<lambda>t. t) | Some f \<Rightarrow> f)" by simp
  have md: "(4::real) = 8 * (case opt_smoothing ?opts of None \<Rightarrow> 0.5 | Some v \<Rightarrow> v)" by simp
  have st: "?st = loop_state_at 8 0 False id 4 ?pts 1" by (simp add: loop_state_at_def)
  have nodot: "\<not> pt_clen (?pts ! (length ?pts - 1)) \<le> 8 / 4" by simp
  have interior: "1 \<le> (1::nat) \<and> 1 < length ?pts - 1" by simp
  have reached: "\<not> (st_short ?st \<and> pt_clen (?pts ! 1) < 8 / 4)" by simp
  have sharp: "SHARP < \<bar>getAngleDelta (pt_angle (?pts ! (1 + 1))) (pt_angle (?pts ! 1))\<bar>"
    by (simp add: getAngleDelta_pi_0 SHARP_def TAU_def)
  have stop: "outline_loop 8 0 False id 4 ?pts (1 + 1) s = s" for s
    by (subst outline_loop.simps) simp
  note T = getStrokeOutlinePoints_sharp_corner[OF sz th sp ea md st nodot interior reached sharp,
             unfolded Let_def]
  have ex: "\<exists>ls rs. getStrokeOutlinePoints ?pts ?opts
          = Inr ((map (\<lambda>t. projectPoint (0, 0) (0 + TAU - t * pi) 4)
                    [0, 1/10, 2/10, 3/10, 4/10, 5/10, 6/10, 7/10, 8/10, 9/10, 1]
                  @ map (\<lambda>t. projectPoint (10, 0) (0 - TAU + t * - pi) 4) [0, 1/4, 2/4, 3/4, 1]
                  @ ls)
                 @ rev ([projectPoint (0, 0) (0 + TAU) 4]
                  @ map (\<lambda>t. projectPoint (10, 0) (0 + TAU + t * pi) 4) [0, 1/4, 2/4, 3/4, 1]
                  @ rs))"
    using T[THEN conjunct1] by (simp add: sample_radius_def init_state_def pos_def)
  have whole: "getStrokeOutlinePoints ?pts ?opts
      = Inr (end_cap ?pts (outline_step 8 0 False id 4 ?pts 1 ?st))"
    using T[THEN conjunct2, THEN conjunct1] by (simp only: stop)
  have rest: "length (leftPts (outline_step 8 0 False id 4 ?pts 1 ?st)) = 16"
     "length (rightPts (outline_step 8 0 False id 4 ?pts 1 ?st)) = 6"
     "st_pa (outline_step 8 0 False id 4 ?pts 1 ?st) = 0"
     "st_pp (outline_step 8 0 False id 4 ?pts 1 ?st) = 0"
    using T[THEN conjunct2, THEN conjunct2] by (simp_all add: init_state_def)
  have nd: "\<not> pt_clen (?pts ! 2) \<le> 8 / 4" by simp
  have sh: "SHARP < \<bar>getAngleDelta (pt_angle (?pts ! 2)) (pt_angle (?pts ! 1))\<bar>"
    using sharp by simp
  show ?thesis
    unfolding Let_def
    using sh nd st[symmetric] whole ex rest by (intro conjI)
qed

lemma outline_loop_four:
  "length points = 4 \<Longrightarrow>
   outline_loop sz thinning simulatePressure easing minDist points (Suc 0) st
     = outline_step sz thinning simulatePressure easing minDist points 2
         (outline_step sz thinning simulatePressure easing minDist points (Suc 0) st)"
  by (subst outline_loop.simps, subst outline_loop.simps, subst outline_loop.simps)
     (simp add: numeral_2_eq_2)

text \<open>
  C7 as stated fails: in the stroke below, of running length 21, the sample 1
  turns by \<open>pi\<close> towards the sample 2 but lies at the running length 1, under
  \<open>size / 4 = 2\<close>. The loop body skips it and leaves the state as it was, both
  ribs empty; the outline is the end cap on the state that the sample 2 alone
  produces, and has 25 points: the start cap of 11 and one regular point on the
  left, one point of the start cap, one regular point and the end cap of 11 on
  the right, and no fan.
\<close>

theorem sharp_corner_skipped_counterexample:
  "SHARP < \<bar>getAngleDelta
       (pt_angle ([\<lparr>pt_x = 0, pt_y = 0, pt_pressure = 1/2, pt_angle = 0, pt_distance = 0, pt_clen = 0\<rparr>,
        \<lparr>pt_x = 1, pt_y = 0, pt_pressure = 1/2, pt_angle = 0, pt_distance = 1, pt_clen = 1\<rparr>,
        \<lparr>pt_x = - 9, pt_y = 0, pt_pressure = 1/2, pt_angle = pi, pt_distance = 10, pt_clen = 11\<rparr>,
        \<lparr>pt_x = - 19, pt_y = 0, pt_pressure = 1/2, pt_angle = pi, pt_distance = 10, pt_clen = 21\<rparr>] ! 2))
       (pt_angle ([\<lparr>pt_x = 0, pt_y = 0, pt_pressure = 1/2, pt_angle = 0, pt_distance = 0, pt_clen = 0\<rparr>,
        \<lparr>pt_x = 1, pt_y = 0, pt_pressure = 1/2, pt_angle = 0, pt_distance = 1, pt_clen = 1\<rparr>,
        \<lparr>pt_x = - 9, pt_y = 0, pt_pressure = 1/2, pt_angle = pi, pt_distance = 10, pt_clen = 11\<rparr>,
        \<lparr>pt_x = - 19, pt_y = 0, pt_pressure = 1/2, pt_angle = pi, pt_distance = 10, pt_clen = 21\<rparr>] ! 1))\<bar>
   \<and> outline_step 8 0 False id 4
       [\<lparr>pt_x = 0, pt_y = 0, pt_pressure = 1/2, pt_angle = 0, pt_distance = 0, pt_clen = 0\<rparr>,
        \<lparr>pt_x = 1, pt_y = 0, pt_pressure = 1/2, pt_angle = 0, pt_distance = 1, pt_clen = 1\<rparr>,
        \<lparr>pt_x = - 9, pt_y = 0, pt_pressure = 1/2, pt_angle = pi, pt_distance = 10, pt_clen = 11\<rparr>,
        \<lparr>pt_x = - 19, pt_y = 0, pt_pressure = 1/2, pt_angle = pi, pt_distance = 10, pt_clen = 21\<rparr>]
       1 (init_state 8 \<lparr>pt_x = 0, pt_y = 0, pt_pressure = 1/2, pt_angle = 0, pt_distance = 0, pt_clen = 0\<rparr>)
     = init_state 8 \<lparr>pt_x = 0, pt_y = 0, pt_pressure = 1/2, pt_angle = 0, pt_distance = 0, pt_clen = 0\<rparr>
   \<and> leftPts (init_state 8 \<lparr>pt_x = 0, pt_y = 0, pt_pressure = 1/2, pt_angle = 0, pt_distance = 0, pt_clen = 0\<rparr>) = []
   \<and> rightPts (init_state 8 \<lparr>pt_x = 0, pt_y = 0, pt_pressure = 1/2, pt_angle = 0, pt_distance = 0, pt_clen = 0\<rparr>) = []
   \<and> getStrokeOutlinePoints
       [\<lparr>pt_x = 0, pt_y = 0, pt_pressure = 1/2, pt_angle = 0, pt_distance = 0, pt_clen = 0\<rparr>,
        \<lparr>pt_x = 1, pt_y = 0, pt_pressure = 1/2, pt_angle = 0, pt_distance = 1, pt_clen = 1\<rparr>,
        \<lparr>pt_x = - 9, pt_y = 0, pt_pressure = 1/2, pt_angle = pi, pt_distance = 10, pt_clen = 11\<rparr>,
        \<lparr>pt_x = - 19, pt_y = 0, pt_pressure = 1/2, pt_angle = pi, pt_distance = 10, pt_clen = 21\<rparr>]
       \<lparr>opt_size = Some 8, opt_thinning = Some 0, opt_smoothing = Some (1/2),
        opt_streamline = None, opt_simulatePressure = Some False, opt_easing = Some id\<rparr>
     = Inr (end_cap
       [\<lparr>pt_x = 0, pt_y = 0, pt_pressure = 1/2, pt_angle = 0, pt_distance = 0, pt_clen = 0\<rparr>,
        \<lparr>pt_x = 1, pt_y = 0, pt_pressure = 1/2, pt_angle = 0, pt_distance = 1, pt_clen = 1\<rparr>,
        \<lparr>pt_x = - 9, pt_y = 0, pt_pressure = 1/2, pt_angle = pi, pt_distance = 10, pt_clen = 11\<rparr>,
        \<lparr>pt_x = - 19, pt_y = 0, pt_pressure = 1/2, pt_angle = pi, pt_distance = 10, pt_clen = 21\<rparr>]
       (outline_step 8 0 False id 4
       [\<lparr>pt_x = 0, pt_y = 0, pt_pressure = 1/2, pt_angle = 0, pt_distance = 0, pt_clen = 0\<rparr>,
        \<lparr>pt_x = 1, pt_y = 0, pt_pressure = 1/2, pt_angle = 0, pt_distance = 1, pt_clen = 1\<rparr>,
        \<lparr>pt_x = - 9, pt_y = 0, pt_pressure = 1/2, pt_angle = pi, pt_distance = 10, pt_clen = 11\<rparr>,
        \<lparr>pt_x = - 19, pt_y = 0, pt_pressure = 1/2, pt_angle = pi, pt_distance = 10, pt_clen = 21\<rparr>]
       2 (init_state 8 \<lparr>pt_x = 0, pt_y = 0, pt_pressure = 1/2, pt_angle = 0, pt_distance = 0, pt_clen = 0\<rparr>)))
   \<and> length (end_cap
       [\<lparr>pt_x = 0, pt_y = 0, pt_pressure = 1/2, pt_angle = 0, pt_distance = 0, pt_clen = 0\<rparr>,
        \<lparr>pt_x = 1, pt_y = 0, pt_pressure = 1/2, pt_angle = 0, pt_distance = 1, pt_clen = 1\<rparr>,
        \<lparr>pt_x = - 9, pt_y = 0, pt_pressure = 1/2, pt_angle = pi, pt_distance = 10, pt_clen = 11\<rparr>,
        \<lparr>pt_x = - 19, pt_y = 0, pt_pressure = 1/2, pt_angle = pi, pt_distance = 10, pt_clen = 21\<rparr>]
       (outline_step 8 0 False id 4
       [\<lparr>pt_x = 0, pt_y = 0, pt_pressure = 1/2, pt_angle = 0, pt_distance = 0, pt_clen = 0\<rparr>,
        \<lparr>pt_x = 1, pt_y = 0, pt_pressure = 1/2, pt_angle = 0, pt_distance = 1, pt_clen = 1\<rparr>,
        \<lparr>pt_x = - 9, pt_y = 0, pt_pressure = 1/2, pt_angle = pi, pt_distance = 10, pt_clen = 11\<rparr>,
        \<lparr>pt_x = - 19, pt_y = 0, pt_pressure = 1/2, pt_angle = pi, pt_distance = 10, pt_clen = 21\<rparr>]
       2 (init_state 8 \<lparr>pt_x = 0, pt_y = 0, pt_pressure = 1/2, pt_angle = 0, pt_distance = 0, pt_clen = 0\<rparr>))) = 25"
proof -
  have s1: "outline_step 8 0 False id 4
       [\<lparr>pt_x = 0, pt_y = 0, pt_pressure = 1/2, pt_angle = 0, pt_distance = 0, pt_clen = 0\<rparr>,
        \<lparr>pt_x = 1, pt_y = 0, pt_pressure = 1/2, pt_angle = 0, pt_distance = 1, pt_clen = 1\<rparr>,
        \<lparr>pt_x = - 9, pt_y = 0, pt_pressure = 1/2, pt_angle = pi, pt_distance = 10, pt_clen = 11\<rparr>,
        \<lparr>pt_x = - 19, pt_y = 0, pt_pressure = 1/2, pt_angle = pi, pt_distance = 10, pt_clen = 21\<rparr>]
       1 (init_state 8 \<lparr>pt_x = 0, pt_y = 0, pt_pressure = 1/2, pt_angle = 0, pt_distance = 0, pt_clen = 0\<rparr>)
     = init_state 8 \<lparr>pt_x = 0, pt_y = 0, pt_pressure = 1/2, pt_angle = 0, pt_distance = 0, pt_clen = 0\<rparr>"
    by (simp add: outline_step_def sample_radius_def emit_sample_def init_state_def)
  have whole: "getStrokeOutlinePoints
       [\<lparr>pt_x = 0, pt_y = 0, pt_pressure = 1/2, pt_angle = 0, pt_distance = 0, pt_clen = 0\<rparr>,
        \<lparr>pt_x = 1, pt_y = 0, pt_pressure = 1/2, pt_angle = 0, pt_distance = 1, pt_clen = 1\<rparr>,
        \<lparr>pt_x = - 9, pt_y = 0, pt_pressure = 1/2, pt_angle = pi, pt_distance = 10, pt_clen = 11\<rparr>,
        \<lparr>pt_x = - 19, pt_y = 0, pt_pressure = 1/2, pt_angle = pi, pt_distance = 10, pt_clen = 21\<rparr>]
       \<lparr>opt_size = Some 8, opt_thinning = Some 0, opt_smoothing = Some (1/2),
        opt_streamline = None, opt_simulatePressure = Some False, opt_easing = Some id\<rparr>
     = Inr (end_cap
       [\<lparr>pt_x = 0, pt_y = 0, pt_pressure = 1/2, pt_angle = 0, pt_distance = 0, pt_clen = 0\<rparr>,
        \<lparr>pt_x = 1, pt_y = 0, pt_pressure = 1/2, pt_angle = 0, pt_distance = 1, pt_clen = 1\<rparr>,
        \<lparr>pt_x = - 9, pt_y = 0, pt_pressure = 1/2, pt_angle = pi, pt_distance = 10, pt_clen = 11\<rparr>,
        \<lparr>pt_x = - 19, pt_y = 0, pt_pressure = 1/2, pt_angle = pi, pt_distance = 10, pt_clen = 21\<rparr>]
       (outline_step 8 0 False id 4
       [\<lparr>pt_x = 0, pt_y = 0, pt_pressure = 1/2, pt_angle = 0, pt_distance = 0, pt_clen = 0\<rparr>,
        \<lparr>pt_x = 1, pt_y = 0, pt_pressure = 1/2, pt_angle = 0, pt_distance = 1, pt_clen = 1\<rparr>,
        \<lparr>pt_x = - 9, pt_y = 0, pt_pressure = 1/2, pt_angle = pi, pt_distance = 10, pt_clen = 11\<rparr>,
        \<lparr>pt_x = - 19, pt_y = 0, pt_pressure = 1/2, pt_angle = pi, pt_distance = 10, pt_clen = 21\<rparr>]
       2 (init_state 8 \<lparr>pt_x = 0, pt_y = 0, pt_pressure = 1/2, pt_angle = 0, pt_distance = 0, pt_clen = 0\<rparr>)))"
    by (simp add: getStrokeOutlinePoints_def js_index_def Let_def outline_loop_four
          s1[unfolded One_nat_def])
  have len: "length (end_cap
       [\<lparr>pt_x = 0, pt_y = 0, pt_pressure = 1/2, pt_angle = 0, pt_distance = 0, pt_clen = 0\<rparr>,
        \<lparr>pt_x = 1, pt_y = 0, pt_pressure = 1/2, pt_angle = 0, pt_distance = 1, pt_clen = 1\<rparr>,
        \<lparr>pt_x = - 9, pt_y = 0, pt_pressure = 1/2, pt_angle = pi, pt_distance = 10, pt_clen = 11\<rparr>,
        \<lparr>pt_x = - 19, pt_y = 0, pt_pressure = 1/2, pt_angle = pi, pt_distance = 10, pt_clen = 21\<rparr>]
       (outline_step 8 0 False id 4
       [\<lparr>pt_x = 0, pt_y = 0, pt_pressure = 1/2, pt_angle = 0, pt_distance = 0, pt_clen = 0\<rparr>,
        \<lparr>pt_x = 1, pt_y = 0, pt_pressure = 1/2, pt_angle = 0, pt_distance = 1, pt_clen = 1\<rparr>,
        \<lparr>pt_x = - 9, pt_y = 0, pt_pressure = 1/2, pt_angle = pi, pt_distance = 10, pt_clen = 11\<rparr>,
        \<lparr>pt_x = - 19, pt_y = 0, pt_pressure = 1/2, pt_angle = pi, pt_distance = 10, pt_clen = 21\<rparr>]
       2 (init_state 8 \<lparr>pt_x = 0, pt_y = 0, pt_pressure = 1/2, pt_angle = 0, pt_distance = 0, pt_clen = 0\<rparr>))) = 25"
    by (simp add: end_cap_def for_tenth_unroll Let_def outline_step_def sample_radius_def
          emit_sample_def init_state_def start_cap_def regular_point_def getAngleDelta_def
          SHARP_def TAU_def DULL_def getDistance_def projectPoint_def pos_def)
  have sharp: "SHARP < \<bar>getAngleDelta
       (pt_angle ([\<lparr>pt_x = 0, pt_y = 0, pt_pressure = 1/2, pt_angle = 0, pt_distance = 0, pt_clen = 0\<rparr>,
        \<lparr>pt_x = 1, pt_y = 0, pt_pressure = 1/2, pt_angle = 0, pt_distance = 1, pt_clen = 1\<rparr>,
        \<lparr>pt_x = - 9, pt_y = 0, pt_pressure = 1/2, pt_angle = pi, pt_distance = 10, pt_clen = 11\<rparr>,
        \<lparr>pt_x = - 19, pt_y = 0, pt_pressure = 1/2, pt_angle = pi, pt_distance = 10, pt_clen = 21\<rparr>] ! 2))
       (pt_angle ([\<lparr>pt_x = 0, pt_y = 0, pt_pressure = 1/2, pt_angle = 0, pt_distance = 0, pt_clen = 0\<rparr>,
        \<lparr>pt_x = 1, pt_y = 0, pt_pressure = 1/2, pt_angle = 0, pt_distance = 1, pt_clen = 1\<rparr>,
        \<lparr>pt_x = - 9, pt_y = 0, pt_pressure = 1/2, pt_angle = pi, pt_distance = 10, pt_clen = 11\<rparr>,
        \<lparr>pt_x = - 19, pt_y = 0, pt_pressure = 1/2, pt_angle = pi, pt_distance = 10, pt_clen = 21\<rparr>] ! 1))\<bar>"
    by (simp add: getAngleDelta_pi_0 SHARP_def TAU_def)
  have ribs: "leftPts (init_state 8 \<lparr>pt_x = 0, pt_y = 0, pt_pressure = 1/2, pt_angle = 0, pt_distance = 0, pt_clen = 0\<rparr>) = []" "rightPts (init_state 8 \<lparr>pt_x = 0, pt_y = 0, pt_pressure = 1/2, pt_angle = 0, pt_distance = 0, pt_clen = 0\<rparr>) = []"
    by (simp_all add: init_state_def)
  from sharp s1 ribs whole len show ?thesis by (intro conjI)
qed

end
